theory Spec2Isabelle
  imports Main "HOL-Library.AList" "HOL-Library.Sublist" "HOL-Library.Multiset"
    "HOL-Library.Char_ord" "HOL-Library.List_Lexorder"
begin

section \<open>Data model (src/types/index.ts)\<close>

datatype WoWVersion = retail | classic | classic_era

datatype AddonName =
  ConsolePort | ElvUI | WeakAuras | Details | DBM | BigWigs | Bartender4 | Dominos

text \<open>
  \<^verbatim>\<open>Record<string, string>\<close> and \<^verbatim>\<open>Partial<Record<AddonName, AddonConfig>>\<close> are
  JavaScript objects: \<^verbatim>\<open>Object.entries\<close> walks them in insertion order and an
  assignment to an existing key keeps its position. They are association lists
  with distinct keys, written with \<^const>\<open>AList.update\<close> and read with \<^const>\<open>map_of\<close>.
\<close>

record AddonConfig =
  enabled :: bool
  files :: "(string \<times> string) list"

text \<open>
  The field \<^verbatim>\<open>id\<close> of the source is \<open>id'\<close> here (\<open>id\<close> is the identity of HOL).
  Optional fields are options; timestamps are the ISO strings the source stores.
\<close>

record Profile =
  id' :: string
  name :: string
  description :: "string option"
  device :: "string option"
  createdAt :: string
  updatedAt :: string
  wowVersion :: WoWVersion
  accountName :: "string option"
  addons :: "(AddonName \<times> AddonConfig) list"
  gameSettings :: "string option"

record SyncResult =
  uploaded :: "string list"
  downloaded :: "string list"
  conflicts :: "string list"

section \<open>JavaScript library behaviour the code relies on\<close>

text \<open>
  \<^verbatim>\<open>new Date(s).getTime()\<close> is a parameter \<open>getTime\<close> of every function that
  compares timestamps: it yields the milliseconds of a date string, or \<open>None\<close> where
  JavaScript yields \<^verbatim>\<open>NaN\<close> (a string that is no date). Arithmetic and comparison
  with \<^verbatim>\<open>NaN\<close> follow: a difference is \<^verbatim>\<open>NaN\<close>, a comparison is false.
\<close>

type_synonym clock = "string \<Rightarrow> int option"

fun jsMinus :: "int option \<Rightarrow> int option \<Rightarrow> int option" where
  "jsMinus (Some a) (Some b) = Some (a - b)"
| "jsMinus _ _ = None"

fun jsGreater :: "int option \<Rightarrow> int option \<Rightarrow> bool" where
  "jsGreater (Some a) (Some b) = (a > b)"
| "jsGreater _ _ = False"

definition endsWith :: "string \<Rightarrow> string \<Rightarrow> bool" where
  "endsWith s suf =
     (length suf \<le> length s \<and> drop (length s - length suf) s = suf)"

text \<open>
  \<^verbatim>\<open>Array.prototype.sort(cmp)\<close> is a stable sort; an element \<open>x\<close> goes behind \<open>y\<close>
  where \<open>cmp x y > 0\<close>, and a comparator result of \<^verbatim>\<open>NaN\<close> counts as \<open>0\<close>. Where the
  comparator is no consistent order (some timestamp is \<^verbatim>\<open>NaN\<close>) ECMAScript leaves the
  result to the engine; the model then gives what insertion from the right gives.
\<close>

fun insertSorted :: "('a \<Rightarrow> 'a \<Rightarrow> int option) \<Rightarrow> 'a \<Rightarrow> 'a list \<Rightarrow> 'a list" where
  "insertSorted cmp x [] = [x]"
| "insertSorted cmp x (y # ys) =
     (if jsGreater (cmp x y) (Some 0) then y # insertSorted cmp x ys else x # y # ys)"

definition array_sort :: "('a \<Rightarrow> 'a \<Rightarrow> int option) \<Rightarrow> 'a list \<Rightarrow> 'a list" where
  "array_sort cmp xs = foldr (insertSorted cmp) xs []"

section \<open>Profile store (electron/services/profileManager.ts)\<close>

text \<open>
  The directory \<^verbatim>\<open>profilesDir\<close> is the table of its files: every name with what
  \<^verbatim>\<open>JSON.parse(readFileSync(file))\<close> yields for it, a profile, or \<open>None\<close> where
  reading or parsing throws (JSON text that is no profile object is left out of
  the model). The constructor creates the directory, so it exists, and a profile
  id is taken to be a plain file name. \<^verbatim>\<open>readdirSync\<close> reports the names in byte
  order, whatever the order in which the files were written: strings are compared
  as lists of bytes, and \<open>readdirNames\<close> is the listing with the content of each
  file beside its name.
\<close>

type_synonym profilesDir = "(string \<times> Profile option) list"

definition readdirNames :: "profilesDir \<Rightarrow> profilesDir" where
  "readdirNames dir = sort_key fst dir"

text \<open>
  The loop of \<^verbatim>\<open>listProfiles\<close>. The \<^verbatim>\<open>try\<close> block encloses the whole loop, so an
  exception at one file ends the loop and leaves the profiles pushed so far.
\<close>

fun readProfiles :: "profilesDir \<Rightarrow> Profile list \<Rightarrow> Profile list" where
  "readProfiles [] profiles = profiles"
| "readProfiles ((file, content) # rest) profiles =
     (if endsWith file ''.json'' then
        (case content of
           None \<Rightarrow> profiles
         | Some p \<Rightarrow> readProfiles rest (profiles @ [p]))
      else readProfiles rest profiles)"

definition byUpdatedAtDesc :: "clock \<Rightarrow> Profile \<Rightarrow> Profile \<Rightarrow> int option" where
  "byUpdatedAtDesc getTime a b = jsMinus (getTime (updatedAt b)) (getTime (updatedAt a))"

definition listProfiles :: "clock \<Rightarrow> profilesDir \<Rightarrow> Profile list" where
  "listProfiles getTime dir =
     array_sort (byUpdatedAtDesc getTime) (readProfiles (readdirNames dir) [])"

definition getProfile :: "string \<Rightarrow> profilesDir \<Rightarrow> Profile option option" where
  "getProfile i dir = map_of dir (i @ ''.json'')"

text \<open>
  \<^verbatim>\<open>saveProfile\<close>: \<open>now\<close> is \<^verbatim>\<open>new Date().toISOString()\<close> at the call. The file
  \<^verbatim>\<open><id>.json\<close> is created or replaced; the result is the directory and the
  profile object as the call leaves it (the source assigns \<^verbatim>\<open>updatedAt\<close> in place).
\<close>

definition saveProfile :: "string \<Rightarrow> Profile \<Rightarrow> profilesDir \<Rightarrow> Profile \<times> profilesDir" where
  "saveProfile now p dir =
     (let p' = p\<lparr>updatedAt := now\<rparr>
      in (p', AList.update (id' p' @ ''.json'') (Some p') dir))"

definition deleteProfile :: "string \<Rightarrow> profilesDir \<Rightarrow> profilesDir" where
  "deleteProfile i dir = AList.delete (i @ ''.json'') dir"

section \<open>Remote store (electron/services/googleDrive.ts)\<close>

datatype error = NotConnected | ENOENT | ENOTDIR | EISDIR | EEXIST | EIO | TypeError

text \<open>
  The application folder on Google Drive: the files that the query of
  \<^verbatim>\<open>listRemoteProfiles\<close> matches (not trashed, the name containing \<^verbatim>\<open>profile-\<close> and
  \<^verbatim>\<open>.json\<close>), in listing order, each with the id, name and modification time the
  server gives it and with what a download of its content yields (\<open>None\<close> where
  \<^verbatim>\<open>downloadProfile\<close> throws). Every file the code looks up or creates is named
  \<^verbatim>\<open>profile-<id>.json\<close> and so is one of them. \<open>connected\<close> stands for
  \<^verbatim>\<open>this.drive\<close> being set; the functions that start with the test for it are
  \<^verbatim>\<open>syncProfiles\<close>, \<^verbatim>\<open>pullProfiles\<close> and \<^verbatim>\<open>pushAllProfiles\<close>, and what they call
  runs connected. Network failures of a connected client and the optional
  progress callback are not modelled.
\<close>

record DriveFile =
  driveId :: string
  driveName :: string
  driveModifiedTime :: string
  media :: "Profile option"

record DriveState =
  connected :: bool
  appDataFolder :: "DriveFile list"

text \<open>An element of the list \<^verbatim>\<open>listRemoteProfiles\<close> returns (fields \<^verbatim>\<open>id\<close>, \<^verbatim>\<open>name\<close>,
  \<^verbatim>\<open>modifiedTime\<close>, \<^verbatim>\<open>profile\<close>).\<close>

record RemoteProfile =
  remoteId :: string
  remoteName :: string
  modifiedTime :: string
  profile :: Profile

text \<open>
  What the server answers to an upload: the id of a created file and the
  modification time it stamps on the file. \<open>srv k\<close> is the answer to the \<open>k\<close>-th
  upload of one operation.
\<close>

type_synonym server = "nat \<Rightarrow> string \<times> string"

text \<open>
  \<^verbatim>\<open>findFileByName\<close> yields the id of the first file of that name. \<^verbatim>\<open>uploadProfile\<close>
  replaces the content of the file with that id, which the server stamps with a
  new modification time, or creates a file at the end of the listing.
\<close>

definition findFileByName :: "string \<Rightarrow> DriveFile list \<Rightarrow> string option" where
  "findFileByName n fs =
     (case filter (\<lambda>f. driveName f = n) fs of
        [] \<Rightarrow> None
      | f # _ \<Rightarrow> (if driveId f = [] then None else Some (driveId f)))"

text \<open>The name of the remote file of a profile, \<^verbatim>\<open>`profile-${profile.id}.json`\<close>.\<close>

definition remoteFileName :: "string \<Rightarrow> string" where
  "remoteFileName i = ''profile-'' @ i @ ''.json''"

definition uploadProfile :: "string \<times> string \<Rightarrow> Profile \<Rightarrow> DriveFile list \<Rightarrow> DriveFile list" where
  "uploadProfile answer p fs =
     (let fileName = remoteFileName (id' p)
      in case findFileByName fileName fs of
           Some existingFileId \<Rightarrow>
             map (\<lambda>f. if driveId f = existingFileId
                      then f\<lparr>media := Some p, driveModifiedTime := snd answer\<rparr> else f) fs
         | None \<Rightarrow>
             fs @ [\<lparr>driveId = fst answer, driveName = fileName,
                    driveModifiedTime = snd answer, media = Some p\<rparr>])"

text \<open>The loop of \<^verbatim>\<open>listRemoteProfiles\<close>: a file without id or whose download throws
  is passed over, each inside its own \<^verbatim>\<open>try\<close>.\<close>

fun listRemoteProfiles :: "DriveFile list \<Rightarrow> RemoteProfile list" where
  "listRemoteProfiles [] = []"
| "listRemoteProfiles (file # rest) =
     (if driveId file = [] then listRemoteProfiles rest
      else case media file of
             None \<Rightarrow> listRemoteProfiles rest
           | Some p \<Rightarrow>
               \<lparr>remoteId = driveId file, remoteName = driveName file,
                modifiedTime = driveModifiedTime file, profile = p\<rparr> # listRemoteProfiles rest)"

text \<open>\<^verbatim>\<open>new Map(remoteProfiles.map((r) => [r.profile.id, r]))\<close>: of two entries with
  one key the later one stays.\<close>

definition remoteMapOf :: "RemoteProfile list \<Rightarrow> string \<Rightarrow> RemoteProfile option" where
  "remoteMapOf remoteProfiles = map_of (rev (map (\<lambda>r. (id' (profile r), r)) remoteProfiles))"

text \<open>
  The first loop of \<^verbatim>\<open>syncProfiles\<close>, over the local profiles. Every upload pushes
  one name, so the number of uploads so far is the length of \<^verbatim>\<open>result.uploaded\<close>.
\<close>

fun syncLocal :: "clock \<Rightarrow> server \<Rightarrow> (string \<Rightarrow> RemoteProfile option) \<Rightarrow> Profile list
    \<Rightarrow> SyncResult \<Rightarrow> DriveFile list \<Rightarrow> SyncResult \<times> DriveFile list" where
  "syncLocal getTime srv remoteMap [] result fs = (result, fs)"
| "syncLocal getTime srv remoteMap (localProfile # rest) result fs =
     (case remoteMap (id' localProfile) of
        None \<Rightarrow>
          syncLocal getTime srv remoteMap rest
            (result\<lparr>uploaded := uploaded result @ [name localProfile]\<rparr>)
            (uploadProfile (srv (length (uploaded result))) localProfile fs)
      | Some remote \<Rightarrow>
          (let localTime = getTime (updatedAt localProfile);
               remoteTime = getTime (modifiedTime remote)
           in if jsGreater localTime remoteTime then
                syncLocal getTime srv remoteMap rest
                  (result\<lparr>uploaded := uploaded result @ [name localProfile]\<rparr>)
                  (uploadProfile (srv (length (uploaded result))) localProfile fs)
              else if jsGreater remoteTime localTime then
                syncLocal getTime srv remoteMap rest
                  (result\<lparr>downloaded := downloaded result @ [name localProfile]\<rparr>) fs
              else syncLocal getTime srv remoteMap rest result fs))"

text \<open>The second loop: profiles that only exist remotely.\<close>

fun syncRemoteOnly :: "string list \<Rightarrow> RemoteProfile list \<Rightarrow> SyncResult \<Rightarrow> SyncResult" where
  "syncRemoteOnly localIds [] result = result"
| "syncRemoteOnly localIds (remote # rest) result =
     (if id' (profile remote) \<notin> set localIds then
        syncRemoteOnly localIds rest
          (result\<lparr>downloaded := downloaded result @ [name (profile remote)]\<rparr>)
      else syncRemoteOnly localIds rest result)"

definition syncProfiles :: "clock \<Rightarrow> server \<Rightarrow> Profile list \<Rightarrow> DriveState
    \<Rightarrow> error + SyncResult \<times> DriveState" where
  "syncProfiles getTime srv localProfiles drv =
     (if \<not> connected drv then Inl NotConnected
      else
        let result = \<lparr>uploaded = [], downloaded = [], conflicts = []\<rparr>;
            remoteProfiles = listRemoteProfiles (appDataFolder drv);
            remoteMap = remoteMapOf remoteProfiles;
            (result1, fs1) =
               syncLocal getTime srv remoteMap localProfiles result (appDataFolder drv);
            localIds = map id' localProfiles
        in Inr (syncRemoteOnly localIds remoteProfiles result1, drv\<lparr>appDataFolder := fs1\<rparr>))"

definition pullProfiles :: "DriveState \<Rightarrow> error + Profile list" where
  "pullProfiles drv =
     (if \<not> connected drv then Inl NotConnected
      else Inr (map profile (listRemoteProfiles (appDataFolder drv))))"

text \<open>\<^verbatim>\<open>pushAllProfiles\<close>: every profile is uploaded, in order; \<open>srv k\<close> answers the
  upload number \<open>k\<close>.\<close>

fun pushAll :: "server \<Rightarrow> nat \<Rightarrow> Profile list \<Rightarrow> DriveFile list \<Rightarrow> DriveFile list" where
  "pushAll srv k [] fs = fs"
| "pushAll srv k (p # rest) fs = pushAll srv (Suc k) rest (uploadProfile (srv k) p fs)"

definition pushAllProfiles :: "server \<Rightarrow> Profile list \<Rightarrow> DriveState \<Rightarrow> error + DriveState" where
  "pushAllProfiles srv profiles drv =
     (if \<not> connected drv then Inl NotConnected
      else Inr (drv\<lparr>appDataFolder := pushAll srv 0 profiles (appDataFolder drv)\<rparr>))"

section \<open>The handler of \<^verbatim>\<open>gdrive:sync\<close> (electron/main.ts)\<close>

text \<open>
  The loop over the freshly pulled remote profiles. \<open>localProfiles\<close> is the list
  read before \<^verbatim>\<open>syncProfiles\<close> ran; \<open>shouldSave\<close> is the condition of the
  \<^verbatim>\<open>if\<close> in the loop body (\<^verbatim>\<open>!localProfile || new Date(remoteProfile.updatedAt) >
  new Date(localProfile.updatedAt)\<close>); \<open>clk k\<close> is the clock reading of the \<open>k\<close>-th
  \<^verbatim>\<open>saveProfile\<close> of the loop.
\<close>

definition shouldSave :: "clock \<Rightarrow> Profile list \<Rightarrow> Profile \<Rightarrow> bool" where
  "shouldSave getTime localProfiles remoteProfile =
     (case find (\<lambda>p. id' p = id' remoteProfile) localProfiles of
        None \<Rightarrow> True
      | Some localProfile \<Rightarrow>
          jsGreater (getTime (updatedAt remoteProfile)) (getTime (updatedAt localProfile)))"

fun saveDownloaded :: "clock \<Rightarrow> (nat \<Rightarrow> string) \<Rightarrow> nat \<Rightarrow> Profile list \<Rightarrow> Profile list
    \<Rightarrow> profilesDir \<Rightarrow> profilesDir" where
  "saveDownloaded getTime clk k localProfiles [] dir = dir"
| "saveDownloaded getTime clk k localProfiles (remoteProfile # rest) dir =
     (if shouldSave getTime localProfiles remoteProfile then
        saveDownloaded getTime clk (Suc k) localProfiles rest
          (snd (saveProfile (clk k) remoteProfile dir))
      else saveDownloaded getTime clk k localProfiles rest dir)"

text \<open>The handler, without its last step (the settings file, which is no part of
  either store).\<close>

definition gdriveSync :: "clock \<Rightarrow> server \<Rightarrow> (nat \<Rightarrow> string) \<Rightarrow> profilesDir \<times> DriveState
    \<Rightarrow> error + SyncResult \<times> profilesDir \<times> DriveState" where
  "gdriveSync getTime srv clk st =
     (let dir = fst st;
          localProfiles = listProfiles getTime dir
      in case syncProfiles getTime srv localProfiles (snd st) of
           Inl e \<Rightarrow> Inl e
         | Inr (result, drv) \<Rightarrow>
             (if length (downloaded result) > 0 then
                (case pullProfiles drv of
                   Inl e \<Rightarrow> Inl e
                 | Inr remoteProfiles \<Rightarrow>
                     Inr (result,
                          saveDownloaded getTime clk 0 localProfiles remoteProfiles dir, drv))
              else Inr (result, dir, drv)))"

section \<open>The file system, as \<^verbatim>\<open>fs\<close> and \<^verbatim>\<open>path\<close> of Node.js show it\<close>

text \<open>
  A path is the list of its segments; every name the code joins is taken to be one
  segment (no separator inside). \<^verbatim>\<open>path.join\<close> drops empty and \<^verbatim>\<open>.\<close> segments
  and lets \<^verbatim>\<open>..\<close> remove the segment before it. The file system is the table of
  its entries; \<^verbatim>\<open>readdirSync\<close> reports the names in a directory in byte order; the
  root \<open>[]\<close> is a directory. \<open>faulty\<close> tells the paths whose content cannot be read (an I/O or
  permission error).
\<close>

type_synonym path = "string list"

datatype node = File string | Dir

type_synonym fs = "(path \<times> node) list"

definition pathJoin :: "path \<Rightarrow> string list \<Rightarrow> path" where
  "pathJoin base segs =
     fold (\<lambda>s p. if s = [] \<or> s = ''.'' then p
                  else if s = ''..'' then butlast p else p @ [s]) segs base"

definition dirname :: "path \<Rightarrow> path" where
  "dirname p = butlast p"

definition lookupNode :: "fs \<Rightarrow> path \<Rightarrow> node option" where
  "lookupNode fs p = (if p = [] then Some Dir else map_of fs p)"

definition existsSync :: "path \<Rightarrow> fs \<Rightarrow> bool" where
  "existsSync p fs = (lookupNode fs p \<noteq> None)"

definition readdirSync :: "path \<Rightarrow> fs \<Rightarrow> error + string list" where
  "readdirSync p fs =
     (case lookupNode fs p of
        None \<Rightarrow> Inl ENOENT
      | Some (File c) \<Rightarrow> Inl ENOTDIR
      | Some Dir \<Rightarrow>
          Inr (sort (map (\<lambda>e. last (fst e))
                       (filter (\<lambda>e. fst e \<noteq> [] \<and> butlast (fst e) = p) fs))))"

definition readFileSync :: "(path \<Rightarrow> bool) \<Rightarrow> path \<Rightarrow> fs \<Rightarrow> error + string" where
  "readFileSync faulty p fs =
     (case lookupNode fs p of
        None \<Rightarrow> Inl ENOENT
      | Some Dir \<Rightarrow> Inl EISDIR
      | Some (File c) \<Rightarrow> (if faulty p then Inl EIO else Inr c))"

definition writeFileSync :: "path \<Rightarrow> string \<Rightarrow> fs \<Rightarrow> error + fs" where
  "writeFileSync p content fs =
     (case lookupNode fs p of
        Some Dir \<Rightarrow> Inl EISDIR
      | _ \<Rightarrow> (case lookupNode fs (dirname p) of
                None \<Rightarrow> Inl ENOENT
              | Some (File c) \<Rightarrow> Inl ENOTDIR
              | Some Dir \<Rightarrow> Inr (AList.update p (File content) fs)))"

definition copyFileSync :: "(path \<Rightarrow> bool) \<Rightarrow> path \<Rightarrow> path \<Rightarrow> fs \<Rightarrow> error + fs" where
  "copyFileSync faulty source dest fs =
     (case readFileSync faulty source fs of
        Inl e \<Rightarrow> Inl e
      | Inr c \<Rightarrow> writeFileSync dest c fs)"

text \<open>\<^verbatim>\<open>mkdirSync(p, { recursive: true })\<close>: every missing directory on the way is
  created; a file on the way makes the call throw before anything is created.\<close>

fun mkdirAll :: "path list \<Rightarrow> fs \<Rightarrow> error + fs" where
  "mkdirAll [] fs = Inr fs"
| "mkdirAll (q # qs) fs =
     (case lookupNode fs q of
        None \<Rightarrow> mkdirAll qs (fs @ [(q, Dir)])
      | Some Dir \<Rightarrow> mkdirAll qs fs
      | Some (File c) \<Rightarrow> Inl (if qs = [] then EEXIST else ENOTDIR))"

definition mkdirSync :: "path \<Rightarrow> fs \<Rightarrow> error + fs" where
  "mkdirSync p fs = mkdirAll (prefixes p) fs"

section \<open>Capture and apply (electron/services/profileManager.ts)\<close>

record AddonFileConfig =
  accountLevel :: "string list"
  characterLevel :: "string list option"

fun ADDON_FILES :: "AddonName \<Rightarrow> AddonFileConfig" where
  "ADDON_FILES ConsolePort =
     \<lparr>accountLevel = [''ConsolePort.lua'', ''ConsolePortBar.lua'', ''ConsolePort_Config.lua''],
      characterLevel = None\<rparr>"
| "ADDON_FILES ElvUI =
     \<lparr>accountLevel = [''ElvUI.lua''], characterLevel = Some [''ElvUI.lua'']\<rparr>"
| "ADDON_FILES WeakAuras =
     \<lparr>accountLevel = [''WeakAuras.lua'', ''WeakAurasSaved.lua''], characterLevel = None\<rparr>"
| "ADDON_FILES Details =
     \<lparr>accountLevel = [''Details.lua'', ''Details_DataStorage.lua''], characterLevel = None\<rparr>"
| "ADDON_FILES DBM =
     \<lparr>accountLevel = [''DBM-Core.lua'', ''DBM-StatusBarTimers.lua''],
      characterLevel = Some [''DBM-Core.lua'']\<rparr>"
| "ADDON_FILES BigWigs =
     \<lparr>accountLevel = [''BigWigs.lua''], characterLevel = Some [''BigWigs.lua'']\<rparr>"
| "ADDON_FILES Bartender4 =
     \<lparr>accountLevel = [''Bartender4.lua''], characterLevel = Some [''Bartender4.lua'']\<rparr>"
| "ADDON_FILES Dominos =
     \<lparr>accountLevel = [''Dominos.lua''], characterLevel = Some [''Dominos.lua'']\<rparr>"

fun getVersionFolder :: "WoWVersion \<Rightarrow> string" where
  "getVersionFolder retail = ''_retail_''"
| "getVersionFolder classic = ''_classic_''"
| "getVersionFolder classic_era = ''_classic_era_''"

text \<open>The inner loop of \<^verbatim>\<open>createFromCurrentSettings\<close>, over the file names of one
  add-on: a file that exists and can be read is stored under \<^verbatim>\<open>account/<name>\<close>; a
  failed read is caught and logged.\<close>

fun captureFiles :: "(path \<Rightarrow> bool) \<Rightarrow> path \<Rightarrow> string list \<Rightarrow> fs
    \<Rightarrow> (string \<times> string) list \<Rightarrow> (string \<times> string) list" where
  "captureFiles faulty savedVarsPath [] fs fileMap = fileMap"
| "captureFiles faulty savedVarsPath (fileName # rest) fs fileMap =
     (let filePath = pathJoin savedVarsPath [fileName]
      in if existsSync filePath fs then
           (case readFileSync faulty filePath fs of
              Inr content \<Rightarrow>
                captureFiles faulty savedVarsPath rest fs
                  (AList.update (''account/'' @ fileName) content fileMap)
            | Inl e \<Rightarrow> captureFiles faulty savedVarsPath rest fs fileMap)
         else captureFiles faulty savedVarsPath rest fs fileMap)"

text \<open>The outer loop, over the requested add-ons. \<^verbatim>\<open>ADDON_FILES\<close> has an entry for
  every \<^verbatim>\<open>AddonName\<close>, so the branch for a missing entry cannot be taken.\<close>

fun captureAddons :: "(path \<Rightarrow> bool) \<Rightarrow> path \<Rightarrow> AddonName list \<Rightarrow> fs
    \<Rightarrow> (AddonName \<times> AddonConfig) list \<Rightarrow> (AddonName \<times> AddonConfig) list" where
  "captureAddons faulty savedVarsPath [] fs acc = acc"
| "captureAddons faulty savedVarsPath (addonName # rest) fs acc =
     (let addonConfig = ADDON_FILES addonName;
          addonData = \<lparr>enabled = True,
             files = captureFiles faulty savedVarsPath (accountLevel addonConfig) fs []\<rparr>
      in if length (files addonData) > 0 then
           captureAddons faulty savedVarsPath rest fs (AList.update addonName addonData acc)
         else captureAddons faulty savedVarsPath rest fs acc)"

text \<open>
  \<^verbatim>\<open>createFromCurrentSettings\<close>: \<open>uuid\<close> is the result of \<^verbatim>\<open>uuidv4()\<close>, \<open>clk 0\<close>,
  \<open>clk 1\<close> and \<open>clk 2\<close> are the three clock readings (\<^verbatim>\<open>createdAt\<close>, \<^verbatim>\<open>updatedAt\<close>,
  and the one of \<^verbatim>\<open>saveProfile\<close>). The result is the returned profile and the
  profile directory.
\<close>

definition createFromCurrentSettings :: "(path \<Rightarrow> bool) \<Rightarrow> string \<Rightarrow> (nat \<Rightarrow> string)
    \<Rightarrow> string \<Rightarrow> path \<Rightarrow> WoWVersion \<Rightarrow> string \<Rightarrow> AddonName list
    \<Rightarrow> fs \<Rightarrow> profilesDir \<Rightarrow> error + Profile \<times> profilesDir" where
  "createFromCurrentSettings faulty uuid clk nm wowPath version account addonNames fs dir =
     (let versionFolder = getVersionFolder version;
          accountPath = pathJoin wowPath [versionFolder, ''WTF'', ''Account'', account];
          savedVarsPath = pathJoin accountPath [''SavedVariables''];
          profile0 = \<lparr>id' = uuid, name = nm, description = None, device = None,
                      createdAt = clk 0, updatedAt = clk 1, wowVersion = version,
                      accountName = Some account, addons = [], gameSettings = None\<rparr>
      in if \<not> existsSync savedVarsPath fs then Inr (saveProfile (clk 2) profile0 dir)
         else
           (case readdirSync savedVarsPath fs of
              Inl e \<Rightarrow> Inl e
            | Inr existingFiles \<Rightarrow>
                (let profile1 =
                       profile0\<lparr>addons := captureAddons faulty savedVarsPath addonNames fs []\<rparr>;
                     configCachePath = pathJoin accountPath [''config-cache.wtf''];
                     profile2 =
                       (if existsSync configCachePath fs then
                          (case readFileSync faulty configCachePath fs of
                             Inr content \<Rightarrow> profile1\<lparr>gameSettings := Some content\<rparr>
                           | Inl e \<Rightarrow> profile1)
                        else profile1)
                 in Inr (saveProfile (clk 2) profile2 dir))))"

text \<open>\<^verbatim>\<open>fileKey.split('/')\<close>.\<close>

fun splitSlash :: "string \<Rightarrow> string list" where
  "splitSlash [] = [[]]"
| "splitSlash (c # cs) =
     (if c = CHR ''/'' then [] # splitSlash cs
      else (case splitSlash cs of
              [] \<Rightarrow> [[c]]
            | w # ws \<Rightarrow> (c # w) # ws))"

text \<open>
  The loop of \<^verbatim>\<open>createBackup\<close> over the entries of \<^verbatim>\<open>SavedVariables\<close>. A composite
  operation returns the error it threw, if any, with the file system as it left it.
\<close>

fun copyBackupFiles :: "(path \<Rightarrow> bool) \<Rightarrow> path \<Rightarrow> path \<Rightarrow> string list \<Rightarrow> fs
    \<Rightarrow> error option \<times> fs" where
  "copyBackupFiles faulty savedVarsPath backupDir [] fs = (None, fs)"
| "copyBackupFiles faulty savedVarsPath backupDir (file # rest) fs =
     (if endsWith file ''.lua'' \<or> endsWith file ''.lua.bak'' then
        (let source = pathJoin savedVarsPath [file];
             dest = pathJoin backupDir [file]
         in case copyFileSync faulty source dest fs of
              Inl e \<Rightarrow> (Some e, fs)
            | Inr fs' \<Rightarrow> copyBackupFiles faulty savedVarsPath backupDir rest fs')
      else copyBackupFiles faulty savedVarsPath backupDir rest fs)"

text \<open>\<open>now\<close> is \<^verbatim>\<open>new Date().toISOString()\<close>; \<open>backupsDir\<close> is the field of the class.\<close>

definition backupDirOf :: "path \<Rightarrow> string \<Rightarrow> string \<Rightarrow> path" where
  "backupDirOf backupsDir now account =
     (let timestamp = map (\<lambda>c. if c = CHR '':'' \<or> c = CHR ''.'' then CHR ''-'' else c) now
      in pathJoin backupsDir [account @ ''-'' @ timestamp])"

definition createBackup :: "(path \<Rightarrow> bool) \<Rightarrow> path \<Rightarrow> string \<Rightarrow> path \<Rightarrow> WoWVersion \<Rightarrow> string
    \<Rightarrow> fs \<Rightarrow> error option \<times> fs" where
  "createBackup faulty backupsDir now wowPath version account fs =
     (let versionFolder = getVersionFolder version;
          backupDir = backupDirOf backupsDir now account;
          savedVarsPath =
            pathJoin wowPath [versionFolder, ''WTF'', ''Account'', account, ''SavedVariables'']
      in if \<not> existsSync savedVarsPath fs then (None, fs)
         else
           (case mkdirSync backupDir fs of
              Inl e \<Rightarrow> (Some e, fs)
            | Inr fs1 \<Rightarrow>
                (case readdirSync savedVarsPath fs1 of
                   Inl e \<Rightarrow> (Some e, fs1)
                 | Inr entries \<Rightarrow>
                     copyBackupFiles faulty savedVarsPath backupDir entries fs1)))"

text \<open>The inner loop of \<^verbatim>\<open>loadProfile\<close>, over the files of one add-on. A key
  without \<^verbatim>\<open>/\<close> leaves \<^verbatim>\<open>fileName\<close> undefined, and \<^verbatim>\<open>path.join\<close> throws on it.\<close>

fun writeFiles :: "path \<Rightarrow> (string \<times> string) list \<Rightarrow> fs \<Rightarrow> error option \<times> fs" where
  "writeFiles savedVarsPath [] fs = (None, fs)"
| "writeFiles savedVarsPath ((fileKey, content) # rest) fs =
     (let parts = splitSlash fileKey;
          level = hd parts
      in if level = ''account'' then
           (case tl parts of
              [] \<Rightarrow> (Some TypeError, fs)
            | fileName # _ \<Rightarrow>
                (let targetPath = pathJoin savedVarsPath [fileName];
                     targetDir = dirname targetPath
                 in case (if \<not> existsSync targetDir fs then mkdirSync targetDir fs else Inr fs) of
                      Inl e \<Rightarrow> (Some e, fs)
                    | Inr fs1 \<Rightarrow>
                        (case writeFileSync targetPath content fs1 of
                           Inl e \<Rightarrow> (Some e, fs1)
                         | Inr fs2 \<Rightarrow> writeFiles savedVarsPath rest fs2)))
         else writeFiles savedVarsPath rest fs)"

fun writeAddons :: "path \<Rightarrow> (AddonName \<times> AddonConfig) list \<Rightarrow> fs \<Rightarrow> error option \<times> fs" where
  "writeAddons savedVarsPath [] fs = (None, fs)"
| "writeAddons savedVarsPath ((addonName, addonConfig) # rest) fs =
     (if \<not> enabled addonConfig then writeAddons savedVarsPath rest fs
      else case writeFiles savedVarsPath (files addonConfig) fs of
             (Some e, fs') \<Rightarrow> (Some e, fs')
           | (None, fs') \<Rightarrow> writeAddons savedVarsPath rest fs')"

text \<open>What \<^verbatim>\<open>loadProfile\<close> does after \<^verbatim>\<open>createBackup\<close> has returned: the add-on files,
  then the game settings if the profile has any (a non-empty string).\<close>

definition writeProfile :: "Profile \<Rightarrow> path \<Rightarrow> fs \<Rightarrow> error option \<times> fs" where
  "writeProfile p wowPath fs =
     (let versionFolder = getVersionFolder (wowVersion p);
          accountPath = pathJoin wowPath
            [versionFolder, ''WTF'', ''Account'', case_option [] (\<lambda>a. a) (accountName p)];
          savedVarsPath = pathJoin accountPath [''SavedVariables'']
      in case writeAddons savedVarsPath (addons p) fs of
           (Some e, fs1) \<Rightarrow> (Some e, fs1)
         | (None, fs1) \<Rightarrow>
             (case gameSettings p of
                None \<Rightarrow> (None, fs1)
              | Some settings \<Rightarrow>
                  (if settings = [] then (None, fs1)
                   else (let configCachePath = pathJoin accountPath [''config-cache.wtf'']
                         in case writeFileSync configCachePath settings fs1 of
                              Inl e \<Rightarrow> (Some e, fs1)
                            | Inr fs2 \<Rightarrow> (None, fs2)))))"

definition loadProfile :: "(path \<Rightarrow> bool) \<Rightarrow> path \<Rightarrow> string \<Rightarrow> Profile \<Rightarrow> path \<Rightarrow> fs
    \<Rightarrow> error option \<times> fs" where
  "loadProfile faulty backupsDir now p wowPath fs =
     (case createBackup faulty backupsDir now wowPath (wowVersion p)
             (case_option [] (\<lambda>a. a) (accountName p)) fs of
        (Some e, fs1) \<Rightarrow> (Some e, fs1)
      | (None, fs1) \<Rightarrow> writeProfile p wowPath fs1)"

section \<open>Notions the properties are stated with\<close>

text \<open>
  The decision rules of the reconciliation as the specification words them: a local
  profile is due for upload when no remote record has its id or its \<^verbatim>\<open>updatedAt\<close>
  is later than the record's \<^verbatim>\<open>modifiedTime\<close>, and due for download when the
  record's \<^verbatim>\<open>modifiedTime\<close> is later.
\<close>

definition uploadDue :: "clock \<Rightarrow> (string \<Rightarrow> RemoteProfile option) \<Rightarrow> Profile \<Rightarrow> bool" where
  "uploadDue getTime remoteMap l =
     (case remoteMap (id' l) of
        None \<Rightarrow> True
      | Some r \<Rightarrow> jsGreater (getTime (updatedAt l)) (getTime (modifiedTime r)))"

definition downloadDue :: "clock \<Rightarrow> (string \<Rightarrow> RemoteProfile option) \<Rightarrow> Profile \<Rightarrow> bool" where
  "downloadDue getTime remoteMap l =
     (case remoteMap (id' l) of
        None \<Rightarrow> False
      | Some r \<Rightarrow> jsGreater (getTime (modifiedTime r)) (getTime (updatedAt l)))"

text \<open>
  What \<^verbatim>\<open>saveProfile\<close> keeps true of the profile directory: a file named
  \<^verbatim>\<open>*.json\<close> that can be decoded is named after the id of the profile inside, and
  the \<^verbatim>\<open>updatedAt\<close> of that profile is a date.
\<close>

definition storeWellFormed :: "clock \<Rightarrow> profilesDir \<Rightarrow> bool" where
  "storeWellFormed getTime dir =
     list_all (\<lambda>e. if endsWith (fst e) ''.json'' then
                      (case snd e of
                         None \<Rightarrow> True
                       | Some p \<Rightarrow> fst e = id' p @ ''.json'' \<and> getTime (updatedAt p) \<noteq> None)
                    else True) dir"


text \<open>
  The writes of \<^verbatim>\<open>loadProfile\<close>, in their order, each with its target path: the
  files of every enabled add-on whose key starts with \<^verbatim>\<open>account/\<close>, then the game
  settings.
\<close>

fun fileWrites :: "path \<Rightarrow> (string \<times> string) list \<Rightarrow> (path \<times> string) list" where
  "fileWrites savedVarsPath [] = []"
| "fileWrites savedVarsPath ((fileKey, content) # rest) =
     (if hd (splitSlash fileKey) = ''account'' then
        (case tl (splitSlash fileKey) of
           [] \<Rightarrow> fileWrites savedVarsPath rest
         | fileName # _ \<Rightarrow>
             (pathJoin savedVarsPath [fileName], content) # fileWrites savedVarsPath rest)
      else fileWrites savedVarsPath rest)"

fun addonWrites :: "path \<Rightarrow> (AddonName \<times> AddonConfig) list \<Rightarrow> (path \<times> string) list" where
  "addonWrites savedVarsPath [] = []"
| "addonWrites savedVarsPath ((addonName, addonConfig) # rest) =
     (if enabled addonConfig then
        fileWrites savedVarsPath (files addonConfig) @ addonWrites savedVarsPath rest
      else addonWrites savedVarsPath rest)"

definition profileWrites :: "Profile \<Rightarrow> path \<Rightarrow> (path \<times> string) list" where
  "profileWrites p wowPath =
     (let accountPath = pathJoin wowPath
            [getVersionFolder (wowVersion p), ''WTF'', ''Account'',
             case_option [] (\<lambda>a. a) (accountName p)]
      in addonWrites (pathJoin accountPath [''SavedVariables'']) (addons p)
         @ (case gameSettings p of
              None \<Rightarrow> []
            | Some settings \<Rightarrow>
                (if settings = [] then []
                 else [(pathJoin accountPath [''config-cache.wtf''], settings)])))"

text \<open>The content of the regular file at a path, if there is one.\<close>

definition fileContent :: "fs \<Rightarrow> path \<Rightarrow> string option" where
  "fileContent fs p = (case lookupNode fs p of Some (File c) \<Rightarrow> Some c | _ \<Rightarrow> None)"



section \<open>Example values\<close>

text \<open>A clock that knows three dates; every other string is no date.\<close>

definition isoTime :: clock where
  "isoTime = map_of [(''2024-01-01T00:00:00.000Z'', 1704067200000),
                     (''2024-01-02T00:00:00.000Z'', 1704153600000),
                     (''2024-01-03T00:00:00.000Z'', 1704240000000)]"

definition exampleProfile :: "string \<Rightarrow> string \<Rightarrow> string \<Rightarrow> Profile" where
  "exampleProfile i n t =
     \<lparr>id' = i, name = n, description = None, device = None,
      createdAt = ''2024-01-01T00:00:00.000Z'', updatedAt = t, wowVersion = retail,
      accountName = Some ''ACC'', addons = [], gameSettings = None\<rparr>"

definition exampleFile :: "string \<Rightarrow> string \<Rightarrow> Profile \<Rightarrow> DriveFile" where
  "exampleFile i t p =
     \<lparr>driveId = i, driveName = remoteFileName (id' p),
      driveModifiedTime = t, media = Some p\<rparr>"

definition exampleServer :: server where
  "exampleServer k = (''new'' @ replicate k CHR ''+'', ''2024-01-03T00:00:00.000Z'')"

definition exampleClock :: "nat \<Rightarrow> string" where
  "exampleClock k = ''2024-01-03T00:00:00.000Z''"

definition exampleDrive :: DriveState where
  "exampleDrive = \<lparr>connected = True, appDataFolder =
      [exampleFile ''f1'' ''2024-01-02T00:00:00.000Z''
         (exampleProfile ''a'' ''A'' ''2024-01-01T00:00:00.000Z'')]\<rparr>"

definition exampleLocalDir :: profilesDir where
  "exampleLocalDir = [(''a.json'', Some (exampleProfile ''a'' ''A'' ''2024-01-01T00:00:00.000Z''))]"

definition exampleRemoteOnly :: DriveState where
  "exampleRemoteOnly = \<lparr>connected = True, appDataFolder =
      [exampleFile ''f1'' ''2024-01-02T00:00:00.000Z''
         (exampleProfile ''b'' ''B'' ''2024-01-01T00:00:00.000Z'')]\<rparr>"

definition exampleDuplicates :: DriveState where
  "exampleDuplicates = \<lparr>connected = True, appDataFolder =
      [exampleFile ''f1'' ''2024-01-01T00:00:00.000Z''
         (exampleProfile ''x'' ''X1'' ''2024-01-01T00:00:00.000Z''),
       exampleFile ''f2'' ''2024-01-02T00:00:00.000Z''
         (exampleProfile ''x'' ''X2'' ''2024-01-01T00:00:00.000Z'')]\<rparr>"

definition exampleShadowed :: DriveState where
  "exampleShadowed = \<lparr>connected = True, appDataFolder =
      [exampleFile ''f1'' ''2024-01-03T00:00:00.000Z''
         (exampleProfile ''x'' ''X'' ''2024-01-03T00:00:00.000Z''),
       exampleFile ''f2'' ''2024-01-01T00:00:00.000Z''
         (exampleProfile ''x'' ''X'' ''2024-01-01T00:00:00.000Z'')]\<rparr>"

definition exampleConvergedDir :: profilesDir where
  "exampleConvergedDir = [(''a.json'', Some (exampleProfile ''a'' ''A'' ''2024-01-02T00:00:00.000Z''))]"

definition exampleAccountPath :: path where
  "exampleAccountPath = [''wow'', ''_retail_'', ''WTF'', ''Account'', ''ACC'']"

definition exampleFs :: fs where
  "exampleFs =
     [([''wow''], Dir), ([''wow'', ''_retail_''], Dir), ([''wow'', ''_retail_'', ''WTF''], Dir),
      ([''wow'', ''_retail_'', ''WTF'', ''Account''], Dir),
      (exampleAccountPath, Dir),
      (exampleAccountPath @ [''SavedVariables''], Dir),
      (exampleAccountPath @ [''SavedVariables'', ''ElvUI.lua''], File ''old-elvui''),
      (exampleAccountPath @ [''config-cache.wtf''], File ''old-cfg''),
      ([''data''], Dir), ([''data'', ''backups''], Dir)]"

definition exampleSettings :: Profile where
  "exampleSettings = (exampleProfile ''a'' ''A'' ''2024-01-01T00:00:00.000Z'')
     \<lparr>addons := [(ElvUI, \<lparr>enabled = True, files = [(''account/ElvUI.lua'', ''new-elvui'')]\<rparr>)],
      gameSettings := Some ''new-cfg''\<rparr>"

section \<open>The profile store: listing and saving\<close>





lemma jsGreater_asym: "jsGreater a b \<Longrightarrow> \<not> jsGreater b a"
  by (cases a; cases b) auto

lemma jsGreater_irrefl: "\<not> jsGreater a a"
  by (cases a) auto












lemma set_update_subset: "set (AList.update k v al) \<subseteq> insert (k, v) (set al)"
  by (induction al) auto

lemma saveProfile_wellFormed:
  assumes "storeWellFormed getTime dir" "getTime now \<noteq> None"
  shows "storeWellFormed getTime (snd (saveProfile now p dir))"
proof -
  have "set (snd (saveProfile now p dir))
      \<subseteq> insert (id' p @ ''.json'', Some (p\<lparr>updatedAt := now\<rparr>)) (set dir)"
    using set_update_subset[of "id' p @ ''.json''" "Some (p\<lparr>updatedAt := now\<rparr>)" dir]
    by (simp add: saveProfile_def Let_def)
  with assms show ?thesis
    unfolding storeWellFormed_def list_all_iff by fastforce
qed



text \<open>
  C6 describes what the listing should do; the code does otherwise. With an
  undecodable \<^verbatim>\<open>a.json\<close> in front of a valid \<^verbatim>\<open>b.json\<close> the listing is empty: the
  exception leaves the loop, and the valid record behind it is never read.
\<close>

theorem listProfiles_aborts_at_corrupt_record:
  "listProfiles isoTime
     [(''a.json'', None),
      (''b.json'', Some (exampleProfile ''b'' ''B'' ''2024-01-01T00:00:00.000Z''))] = []"
  by code_simp

text \<open>
  C10. \<^verbatim>\<open>saveProfile\<close> writes, under \<^verbatim>\<open><id>.json\<close>, a record that agrees with the
  profile it was given in every field but \<^verbatim>\<open>updatedAt\<close>, which is the time of the
  save.
\<close>

theorem saveProfile_persists_record:
  "\<exists>q. saveProfile now p dir = (q, snd (saveProfile now p dir)) \<and>
     map_of (snd (saveProfile now p dir)) (id' p @ ''.json'') = Some (Some q) \<and>
     id' q = id' p \<and> name q = name p \<and> description q = description p \<and>
     device q = device p \<and> createdAt q = createdAt p \<and> wowVersion q = wowVersion p \<and>
     accountName q = accountName p \<and> addons q = addons p \<and>
     gameSettings q = gameSettings p \<and> updatedAt q = now"
  by (simp add: saveProfile_def Let_def update_conv')

section \<open>The reconciliation pass\<close>

text \<open>The first loop records and uploads exactly the local profiles that are due,
  in their order, and the uploads are those of \<^verbatim>\<open>pushAllProfiles\<close> on that list.\<close>

lemma syncLocal_char:
  "syncLocal getTime srv rm ls result fs =
     (result\<lparr>uploaded := uploaded result @ map name (filter (uploadDue getTime rm) ls),
             downloaded := downloaded result @ map name (filter (downloadDue getTime rm) ls)\<rparr>,
      pushAll srv (length (uploaded result)) (filter (uploadDue getTime rm) ls) fs)"
proof (induction ls arbitrary: result fs)
  case Nil
  then show ?case by simp
next
  case (Cons l ls)
  show ?case
  proof (cases "rm (id' l)")
    case None
    then show ?thesis
      by (simp add: Cons.IH uploadDue_def downloadDue_def)
  next
    case (Some r)
    then show ?thesis
      by (auto simp: Cons.IH uploadDue_def downloadDue_def Let_def dest: jsGreater_asym)
  qed
qed

lemma syncRemoteOnly_char:
  "syncRemoteOnly ids rs result =
     result\<lparr>downloaded := downloaded result @
        map (\<lambda>r. name (profile r)) (filter (\<lambda>r. id' (profile r) \<notin> set ids) rs)\<rparr>"
  by (induction rs arbitrary: result) auto

lemma syncProfiles_char:
  assumes "connected drv"
  shows "syncProfiles getTime srv ls drv =
     Inr (\<lparr>uploaded = map name
              (filter (uploadDue getTime (remoteMapOf (listRemoteProfiles (appDataFolder drv)))) ls),
           downloaded = map name
              (filter (downloadDue getTime (remoteMapOf (listRemoteProfiles (appDataFolder drv)))) ls)
              @ map (\<lambda>r. name (profile r))
                  (filter (\<lambda>r. id' (profile r) \<notin> set (map id' ls))
                     (listRemoteProfiles (appDataFolder drv))),
           conflicts = []\<rparr>,
          drv\<lparr>appDataFolder :=
             pushAll srv 0
               (filter (uploadDue getTime (remoteMapOf (listRemoteProfiles (appDataFolder drv)))) ls)
               (appDataFolder drv)\<rparr>)"
  using assms
  by (simp add: syncProfiles_def syncLocal_char syncRemoteOnly_char Let_def)

lemma syncProfiles_connected:
  "syncProfiles getTime srv ls drv = Inr x \<Longrightarrow> connected drv"
  by (auto simp: syncProfiles_def split: if_splits)

text \<open>What a pass does with a local profile, in terms of the record that the
  \<^verbatim>\<open>Map\<close> of the pass holds under its id.\<close>

lemma syncProfiles_at_record:
  assumes "syncProfiles getTime srv (pre @ l # post) drv = Inr (res, drv')"
    and "remoteMapOf (listRemoteProfiles (appDataFolder drv)) = rm"
    and "rm (id' l) = Some r"
    and "t1 = getTime (updatedAt l)" and "t2 = getTime (modifiedTime r)"
  shows "uploaded res =
           map name (filter (uploadDue getTime rm) pre)
           @ (if jsGreater t1 t2 then [name l] else [])
           @ map name (filter (uploadDue getTime rm) post)
       \<and> appDataFolder drv' =
           pushAll srv 0
             (filter (uploadDue getTime rm) pre
              @ (if jsGreater t1 t2 then [l] else [])
              @ filter (uploadDue getTime rm) post) (appDataFolder drv)
       \<and> downloaded res =
           map name (filter (downloadDue getTime rm) pre)
           @ (if jsGreater t2 t1 then [name l] else [])
           @ map name (filter (downloadDue getTime rm) post)
           @ map (\<lambda>r. name (profile r))
               (filter (\<lambda>r. id' (profile r) \<notin> set (map id' (pre @ l # post)))
                  (listRemoteProfiles (appDataFolder drv)))
       \<and> (t1 = t2 \<longrightarrow> \<not> jsGreater t1 t2 \<and> \<not> jsGreater t2 t1)"
proof -
  have c: "connected drv"
    using assms(1) by (rule syncProfiles_connected)
  note r = assms(1)[unfolded syncProfiles_char[OF c] assms(2)]
  have "uploadDue getTime rm l = jsGreater t1 t2" "downloadDue getTime rm l = jsGreater t2 t1"
    using assms(3-5) by (simp_all add: uploadDue_def downloadDue_def)
  with r show ?thesis
    by (auto simp: jsGreater_irrefl)
qed

lemma remoteMapOf_last:
  assumes "\<forall>r'\<in>set rpost. id' (profile r') \<noteq> id' (profile r)"
  shows "remoteMapOf (rpre @ r # rpost) (id' (profile r)) = Some r"
proof -
  have "map_of (rev (map (\<lambda>r. (id' (profile r), r)) rpost)) (id' (profile r)) = None"
    using assms by (auto simp: map_of_eq_None_iff image_iff)
  then show ?thesis
    by (simp add: remoteMapOf_def map_add_def)
qed

text \<open>
  C1, as amended. In a pass over the local profiles \<open>pre @ l # post\<close>, let \<open>r\<close> be
  the last record of the remote listing that holds a profile with the id of \<open>l\<close>
  (the one the \<^verbatim>\<open>Map\<close> of the pass keeps). Then \<open>l\<close> is uploaded and its name
  recorded in \<^verbatim>\<open>uploaded\<close>, at its place among the other uploads, exactly when its
  \<^verbatim>\<open>updatedAt\<close> is later than \<^verbatim>\<open>r.modifiedTime\<close>; its name is recorded in
  \<^verbatim>\<open>downloaded\<close> exactly when \<^verbatim>\<open>r.modifiedTime\<close> is later; with equal times neither
  happens.
\<close>

theorem sync_last_write_wins:
  assumes "syncProfiles getTime srv (pre @ l # post) drv = Inr (res, drv')"
    and "listRemoteProfiles (appDataFolder drv) = rpre @ r # rpost"
    and "id' (profile r) = id' l"
    and "\<forall>r'\<in>set rpost. id' (profile r') \<noteq> id' l"
    and "remoteMapOf (listRemoteProfiles (appDataFolder drv)) = rm"
    and "t1 = getTime (updatedAt l)" and "t2 = getTime (modifiedTime r)"
  shows "uploaded res =
           map name (filter (uploadDue getTime rm) pre)
           @ (if jsGreater t1 t2 then [name l] else [])
           @ map name (filter (uploadDue getTime rm) post)
       \<and> appDataFolder drv' =
           pushAll srv 0
             (filter (uploadDue getTime rm) pre
              @ (if jsGreater t1 t2 then [l] else [])
              @ filter (uploadDue getTime rm) post) (appDataFolder drv)
       \<and> downloaded res =
           map name (filter (downloadDue getTime rm) pre)
           @ (if jsGreater t2 t1 then [name l] else [])
           @ map name (filter (downloadDue getTime rm) post)
           @ map (\<lambda>r. name (profile r))
               (filter (\<lambda>r. id' (profile r) \<notin> set (map id' (pre @ l # post)))
                  (listRemoteProfiles (appDataFolder drv)))
       \<and> (t1 = t2 \<longrightarrow> \<not> jsGreater t1 t2 \<and> \<not> jsGreater t2 t1)"
proof -
  have "remoteMapOf (rpre @ r # rpost) (id' (profile r)) = Some r"
    by (rule remoteMapOf_last) (use assms(3,4) in simp)
  then have "rm (id' l) = Some r"
    using assms(2,3,5) by simp
  from syncProfiles_at_record[OF assms(1) assms(5) this assms(6) assms(7)]
  show ?thesis .
qed

text \<open>
  C1 as stated fails for a remote record that a later one of the same id shadows.
  The listing holds two records of id \<open>x\<close>, modified on the 3rd and on the 1st, and
  the local profile was updated on the 2nd: the first record is newer than the
  local profile, and yet the pass uploads the local profile, over that record,
  and marks nothing for download.
\<close>

theorem sync_shadowed_record_counterexample:
  "syncProfiles isoTime exampleServer
       [exampleProfile ''x'' ''X'' ''2024-01-02T00:00:00.000Z''] exampleShadowed
     = Inr (\<lparr>uploaded = [''X''], downloaded = [], conflicts = []\<rparr>,
            \<lparr>connected = True, appDataFolder =
               [exampleFile ''f1'' ''2024-01-03T00:00:00.000Z''
                  (exampleProfile ''x'' ''X'' ''2024-01-02T00:00:00.000Z''),
                exampleFile ''f2'' ''2024-01-01T00:00:00.000Z''
                  (exampleProfile ''x'' ''X'' ''2024-01-01T00:00:00.000Z'')]\<rparr>)
   \<and> map (\<lambda>r. (remoteId r, modifiedTime r, id' (profile r)))
        (listRemoteProfiles (appDataFolder exampleShadowed))
     = [(''f1'', ''2024-01-03T00:00:00.000Z'', ''x''),
        (''f2'', ''2024-01-01T00:00:00.000Z'', ''x'')]
   \<and> jsGreater (isoTime ''2024-01-03T00:00:00.000Z'') (isoTime ''2024-01-02T00:00:00.000Z'')
   \<and> \<not> jsGreater (isoTime ''2024-01-02T00:00:00.000Z'') (isoTime ''2024-01-03T00:00:00.000Z'')"
  by code_simp

theorem sync_last_write_wins_witness:
  "syncProfiles isoTime exampleServer
     ([] @ exampleProfile ''a'' ''A'' ''2024-01-03T00:00:00.000Z'' # []) exampleDrive
   = Inr (\<lparr>uploaded = [''A''], downloaded = [], conflicts = []\<rparr>,
          \<lparr>connected = True, appDataFolder =
            [exampleFile ''f1'' ''2024-01-03T00:00:00.000Z''
               (exampleProfile ''a'' ''A'' ''2024-01-03T00:00:00.000Z'')]\<rparr>)
   \<and> jsGreater (isoTime ''2024-01-03T00:00:00.000Z'') (isoTime ''2024-01-02T00:00:00.000Z'')
   \<and> [exampleFile ''f1'' ''2024-01-03T00:00:00.000Z''
               (exampleProfile ''a'' ''A'' ''2024-01-03T00:00:00.000Z'')]
     = pushAll exampleServer 0 [exampleProfile ''a'' ''A'' ''2024-01-03T00:00:00.000Z'']
         (appDataFolder exampleDrive)
   \<and> syncProfiles isoTime exampleServer
       ([] @ exampleProfile ''a'' ''A'' ''2024-01-01T00:00:00.000Z'' # []) exampleDrive
     = Inr (\<lparr>uploaded = [], downloaded = [''A''], conflicts = []\<rparr>, exampleDrive)
   \<and> jsGreater (isoTime ''2024-01-02T00:00:00.000Z'') (isoTime ''2024-01-01T00:00:00.000Z'')
   \<and> syncProfiles isoTime exampleServer
       ([] @ exampleProfile ''a'' ''A'' ''2024-01-02T00:00:00.000Z'' # []) exampleDrive
     = Inr (\<lparr>uploaded = [], downloaded = [], conflicts = []\<rparr>, exampleDrive)
   \<and> \<not> jsGreater (isoTime ''2024-01-02T00:00:00.000Z'') (isoTime ''2024-01-02T00:00:00.000Z'')
   \<and> map (\<lambda>r. (remoteId r, modifiedTime r, id' (profile r)))
        (listRemoteProfiles (appDataFolder exampleShadowed))
     = [(''f1'', ''2024-01-03T00:00:00.000Z'', ''x''),
        (''f2'', ''2024-01-01T00:00:00.000Z'', ''x'')]
   \<and> (\<exists>drv'. syncProfiles isoTime exampleServer
          ([] @ exampleProfile ''x'' ''X'' ''2024-01-02T00:00:00.000Z'' # []) exampleShadowed
        = Inr (\<lparr>uploaded = [''X''], downloaded = [], conflicts = []\<rparr>, drv'))"
proof -
  let ?new = "exampleProfile ''a'' ''A'' ''2024-01-03T00:00:00.000Z''"
  let ?old = "exampleProfile ''a'' ''A'' ''2024-01-01T00:00:00.000Z''"
  let ?same = "exampleProfile ''a'' ''A'' ''2024-01-02T00:00:00.000Z''"
  let ?R = "\<lparr>remoteId = ''f1'', remoteName = ''profile-a.json'',
             modifiedTime = ''2024-01-02T00:00:00.000Z'',
             profile = exampleProfile ''a'' ''A'' ''2024-01-01T00:00:00.000Z''\<rparr>"
  let ?up = "\<lparr>connected = True, appDataFolder =
            [exampleFile ''f1'' ''2024-01-03T00:00:00.000Z'' ?new]\<rparr>"
  have run1: "syncProfiles isoTime exampleServer ([] @ ?new # []) exampleDrive
     = Inr (\<lparr>uploaded = [''A''], downloaded = [], conflicts = []\<rparr>, ?up)"
    by code_simp
  have run2: "syncProfiles isoTime exampleServer ([] @ ?old # []) exampleDrive
     = Inr (\<lparr>uploaded = [], downloaded = [''A''], conflicts = []\<rparr>, exampleDrive)"
    by code_simp
  have run3: "syncProfiles isoTime exampleServer ([] @ ?same # []) exampleDrive
     = Inr (\<lparr>uploaded = [], downloaded = [], conflicts = []\<rparr>, exampleDrive)"
    by code_simp
  have ls: "listRemoteProfiles (appDataFolder exampleDrive) = [] @ ?R # []"
    by code_simp
  have i1: "id' (profile ?R) = id' ?new" and i2: "id' (profile ?R) = id' ?old"
    and i3: "id' (profile ?R) = id' ?same"
    by (simp_all add: exampleProfile_def)
  have n1: "\<forall>r'\<in>set []. id' (profile r') \<noteq> id' ?new"
    and n2: "\<forall>r'\<in>set []. id' (profile r') \<noteq> id' ?old"
    and n3: "\<forall>r'\<in>set []. id' (profile r') \<noteq> id' ?same"
    by simp_all
  let ?x = "exampleProfile ''x'' ''X'' ''2024-01-02T00:00:00.000Z''"
  let ?R1 = "\<lparr>remoteId = ''f1'', remoteName = ''profile-x.json'',
             modifiedTime = ''2024-01-03T00:00:00.000Z'',
             profile = exampleProfile ''x'' ''X'' ''2024-01-03T00:00:00.000Z''\<rparr>"
  let ?R2 = "\<lparr>remoteId = ''f2'', remoteName = ''profile-x.json'',
             modifiedTime = ''2024-01-01T00:00:00.000Z'',
             profile = exampleProfile ''x'' ''X'' ''2024-01-01T00:00:00.000Z''\<rparr>"
  let ?upx = "\<lparr>connected = True, appDataFolder =
               [exampleFile ''f1'' ''2024-01-03T00:00:00.000Z'' ?x,
                exampleFile ''f2'' ''2024-01-01T00:00:00.000Z''
                  (exampleProfile ''x'' ''X'' ''2024-01-01T00:00:00.000Z'')]\<rparr>"
  have run4: "syncProfiles isoTime exampleServer ([] @ ?x # []) exampleShadowed
     = Inr (\<lparr>uploaded = [''X''], downloaded = [], conflicts = []\<rparr>, ?upx)"
    by code_simp
  have ls4: "listRemoteProfiles (appDataFolder exampleShadowed) = [?R1] @ ?R2 # []"
    by code_simp
  have ls4': "map (\<lambda>r. (remoteId r, modifiedTime r, id' (profile r)))
        (listRemoteProfiles (appDataFolder exampleShadowed))
     = [(''f1'', ''2024-01-03T00:00:00.000Z'', ''x''),
        (''f2'', ''2024-01-01T00:00:00.000Z'', ''x'')]"
    by code_simp
  have i4: "id' (profile ?R2) = id' ?x"
    by (simp add: exampleProfile_def)
  have n4: "\<forall>r'\<in>set []. id' (profile r') \<noteq> id' ?x"
    by simp
  have u4: "isoTime ''2024-01-02T00:00:00.000Z'' = isoTime (updatedAt ?x)"
    by (simp add: exampleProfile_def)
  have m4: "isoTime ''2024-01-01T00:00:00.000Z'' = isoTime (modifiedTime ?R2)"
    by simp
  have gt1: "jsGreater (isoTime ''2024-01-03T00:00:00.000Z'') (isoTime ''2024-01-02T00:00:00.000Z'')"
    by code_simp
  have gt2: "jsGreater (isoTime ''2024-01-02T00:00:00.000Z'') (isoTime ''2024-01-01T00:00:00.000Z'')"
    by code_simp
  have u1: "isoTime ''2024-01-03T00:00:00.000Z'' = isoTime (updatedAt ?new)"
    by (simp add: exampleProfile_def)
  have u2: "isoTime ''2024-01-01T00:00:00.000Z'' = isoTime (updatedAt ?old)"
    by (simp add: exampleProfile_def)
  have u3: "isoTime ''2024-01-02T00:00:00.000Z'' = isoTime (updatedAt ?same)"
    by (simp add: exampleProfile_def)
  have m: "isoTime ''2024-01-02T00:00:00.000Z'' = isoTime (modifiedTime ?R)"
    by simp
  from sync_last_write_wins[OF run1 ls i1 n1 refl u1 m] gt1
  have up: "[exampleFile ''f1'' ''2024-01-03T00:00:00.000Z'' ?new]
     = pushAll exampleServer 0 [?new] (appDataFolder exampleDrive)"
    by simp
  from sync_last_write_wins[OF run2 ls i2 n2 refl u2 m] gt2
  have down: "downloaded \<lparr>uploaded = [], downloaded = [''A''], conflicts = []\<rparr>
     = map name (filter (downloadDue isoTime
          (remoteMapOf (listRemoteProfiles (appDataFolder exampleDrive)))) []) @ [name ?old]
       @ map (\<lambda>r. name (profile r))
           (filter (\<lambda>r. id' (profile r) \<notin> set (map id' ([] @ [?old])))
              (listRemoteProfiles (appDataFolder exampleDrive)))"
    by simp
  from sync_last_write_wins[OF run3 ls i3 n3 refl u3 m]
  have eq: "\<not> jsGreater (isoTime ''2024-01-02T00:00:00.000Z'') (isoTime ''2024-01-02T00:00:00.000Z'')"
    by simp
  from sync_last_write_wins[OF run4 ls4 i4 n4 refl u4 m4] gt2
  have upx: "uploaded \<lparr>uploaded = [''X''], downloaded = [], conflicts = []\<rparr>
     = map name (filter (uploadDue isoTime
          (remoteMapOf (listRemoteProfiles (appDataFolder exampleShadowed)))) []) @ [name ?x]
       @ map name (filter (uploadDue isoTime
          (remoteMapOf (listRemoteProfiles (appDataFolder exampleShadowed)))) [])"
    by simp
  from run4 have ex: "\<exists>drv'. syncProfiles isoTime exampleServer ([] @ ?x # []) exampleShadowed
        = Inr (\<lparr>uploaded = [''X''], downloaded = [], conflicts = []\<rparr>, drv')"
    by (rule exI)
  from run1 gt1 up run2 gt2 run3 eq ls4' ex down upx show ?thesis
    by (intro conjI) assumption+
qed

section \<open>Uploads leave the records of other profiles alone\<close>











section \<open>The download phase of the handler\<close>

text \<open>What the loop over the pulled profiles leaves under \<^verbatim>\<open><i>.json\<close>: a pulled
  profile of id \<open>i\<close> that passed the test, stamped with a clock reading, or, if none
  of that id passed, what was there before.\<close>

lemma saveDownloaded_entry:
  "(\<exists>rp\<in>set rps. \<exists>j. id' rp = i \<and> shouldSave getTime ls rp \<and>
        map_of (saveDownloaded getTime clk k ls rps dir) (i @ ''.json'')
          = Some (Some (rp\<lparr>updatedAt := clk j\<rparr>)))
   \<or> ((\<forall>rp\<in>set rps. id' rp = i \<longrightarrow> \<not> shouldSave getTime ls rp) \<and>
        map_of (saveDownloaded getTime clk k ls rps dir) (i @ ''.json'')
          = map_of dir (i @ ''.json''))"
proof (induction rps arbitrary: k dir)
  case Nil
  then show ?case by simp
next
  case (Cons rp rps)
  show ?case
  proof (cases "shouldSave getTime ls rp")
    case False
    with Cons.IH[of k dir] show ?thesis by auto
  next
    case True
    let ?dir1 = "snd (saveProfile (clk k) rp dir)"
    have look: "map_of ?dir1 (i @ ''.json'') =
        (if id' rp = i then Some (Some (rp\<lparr>updatedAt := clk k\<rparr>))
         else map_of dir (i @ ''.json''))"
      by (auto simp: saveProfile_def Let_def update_conv')
    from Cons.IH[of "Suc k" ?dir1] True look show ?thesis
      by (cases "id' rp = i") auto
  qed
qed

lemma gdriveSync_connected:
  "gdriveSync getTime srv clk (dir, drv) = Inr x \<Longrightarrow> connected drv"
  by (auto simp: gdriveSync_def Let_def syncProfiles_def split: if_splits sum.splits)

lemma gdriveSync_char:
  assumes "gdriveSync getTime srv clk (dir, drv) = Inr (res, dir', drv')"
    and "listProfiles getTime dir = locals"
    and "listRemoteProfiles (appDataFolder drv) = remotes"
    and "remoteMapOf remotes = rm"
  shows "uploaded res = map name (filter (uploadDue getTime rm) locals)"
    and "downloaded res = map name (filter (downloadDue getTime rm) locals)
            @ map (\<lambda>r. name (profile r)) (filter (\<lambda>r. id' (profile r) \<notin> set (map id' locals)) remotes)"
    and "conflicts res = []"
    and "connected drv'"
    and "appDataFolder drv' = pushAll srv 0 (filter (uploadDue getTime rm) locals) (appDataFolder drv)"
    and "drv' = drv\<lparr>appDataFolder := pushAll srv 0 (filter (uploadDue getTime rm) locals) (appDataFolder drv)\<rparr>"
    and "dir' = (if downloaded res = [] then dir
                 else saveDownloaded getTime clk 0 locals
                        (map profile (listRemoteProfiles (appDataFolder drv'))) dir)"
proof -
  have c: "connected drv"
    using assms(1) by (rule gdriveSync_connected)
  have sp: "syncProfiles getTime srv locals drv =
     Inr (\<lparr>uploaded = map name (filter (uploadDue getTime rm) locals),
           downloaded = map name (filter (downloadDue getTime rm) locals)
              @ map (\<lambda>r. name (profile r)) (filter (\<lambda>r. id' (profile r) \<notin> set (map id' locals)) remotes),
           conflicts = []\<rparr>,
          drv\<lparr>appDataFolder := pushAll srv 0 (filter (uploadDue getTime rm) locals) (appDataFolder drv)\<rparr>)"
    using syncProfiles_char[OF c, of getTime srv locals] assms(3,4) by simp
  have run0: "gdriveSync getTime srv clk (dir, drv) =
     (case syncProfiles getTime srv (listProfiles getTime dir) drv of
           Inl e \<Rightarrow> Inl e
         | Inr (result, drv1) \<Rightarrow>
             (if length (downloaded result) > 0 then
                (case pullProfiles drv1 of
                   Inl e \<Rightarrow> Inl e
                 | Inr remoteProfiles \<Rightarrow>
                     Inr (result, saveDownloaded getTime clk 0 (listProfiles getTime dir)
                                    remoteProfiles dir, drv1))
              else Inr (result, dir, drv1)))"
    by (simp add: gdriveSync_def Let_def)
  note r = assms(1)[unfolded run0 assms(2) sp]
  from r c show "uploaded res = map name (filter (uploadDue getTime rm) locals)"
    by (auto simp: pullProfiles_def split: if_splits)
  from r c show "downloaded res = map name (filter (downloadDue getTime rm) locals)
            @ map (\<lambda>r. name (profile r)) (filter (\<lambda>r. id' (profile r) \<notin> set (map id' locals)) remotes)"
    by (auto simp: pullProfiles_def split: if_splits)
  from r c show "conflicts res = []"
    by (auto simp: pullProfiles_def split: if_splits)
  from r c show d: "drv' = drv\<lparr>appDataFolder := pushAll srv 0 (filter (uploadDue getTime rm) locals) (appDataFolder drv)\<rparr>"
    by (auto simp: pullProfiles_def split: if_splits)
  from d c show "connected drv'" by simp
  from d show "appDataFolder drv' = pushAll srv 0 (filter (uploadDue getTime rm) locals) (appDataFolder drv)"
    by simp
  from r c d show "dir' = (if downloaded res = [] then dir
                 else saveDownloaded getTime clk 0 locals
                        (map profile (listRemoteProfiles (appDataFolder drv'))) dir)"
    by (auto simp: pullProfiles_def split: if_splits)
qed




text \<open>
  C2, as amended. The download phase runs only when \<^verbatim>\<open>downloaded\<close> is not empty,
  and then over every profile of a fresh remote listing. What it leaves under
  \<^verbatim>\<open><i>.json\<close> is a pulled profile of id \<open>i\<close> that passed the test of the loop
  (stamped by the save) if one passed, and what was there before otherwise. The
  test: the list of local profiles read at the start of the pass has no profile
  of that id, or the pulled profile's own \<^verbatim>\<open>updatedAt\<close> is later than that of the
  first listed local profile of that id.
\<close>

theorem download_apply_guard:
  assumes "gdriveSync getTime srv clk (dir, drv) = Inr (res, dir', drv')"
    and "listProfiles getTime dir = locals"
    and "map profile (listRemoteProfiles (appDataFolder drv')) = pulled"
  shows "(downloaded res = [] \<longrightarrow> dir' = dir)
       \<and> (downloaded res \<noteq> [] \<longrightarrow>
            (\<forall>i. ((\<exists>rp\<in>set pulled. id' rp = i \<and> shouldSave getTime locals rp) \<longrightarrow>
                    (\<exists>rp\<in>set pulled. \<exists>t. id' rp = i \<and> shouldSave getTime locals rp \<and>
                       map_of dir' (i @ ''.json'') = Some (Some (rp\<lparr>updatedAt := t\<rparr>))))
               \<and> ((\<forall>rp\<in>set pulled. id' rp = i \<longrightarrow> \<not> shouldSave getTime locals rp) \<longrightarrow>
                    map_of dir' (i @ ''.json'') = map_of dir (i @ ''.json''))))
       \<and> (\<forall>rp. shouldSave getTime locals rp =
                 (case find (\<lambda>p. id' p = id' rp) locals of
                    None \<Rightarrow> True
                  | Some l \<Rightarrow> jsGreater (getTime (updatedAt rp)) (getTime (updatedAt l))))"
proof -
  note ch = gdriveSync_char[OF assms(1,2) refl refl]
  have 1: "downloaded res = [] \<longrightarrow> dir' = dir"
    using ch(7) by simp
  have 2: "downloaded res \<noteq> [] \<longrightarrow>
            (\<forall>i. ((\<exists>rp\<in>set pulled. id' rp = i \<and> shouldSave getTime locals rp) \<longrightarrow>
                    (\<exists>rp\<in>set pulled. \<exists>t. id' rp = i \<and> shouldSave getTime locals rp \<and>
                       map_of dir' (i @ ''.json'') = Some (Some (rp\<lparr>updatedAt := t\<rparr>))))
               \<and> ((\<forall>rp\<in>set pulled. id' rp = i \<longrightarrow> \<not> shouldSave getTime locals rp) \<longrightarrow>
                    map_of dir' (i @ ''.json'') = map_of dir (i @ ''.json'')))"
  proof (intro impI allI)
    fix i
    assume "downloaded res \<noteq> []"
    then have dir': "dir' = saveDownloaded getTime clk 0 locals pulled dir"
      using ch(7) assms(3) by simp
    from saveDownloaded_entry[of pulled i getTime locals clk 0 dir]
    show "((\<exists>rp\<in>set pulled. id' rp = i \<and> shouldSave getTime locals rp) \<longrightarrow>
                    (\<exists>rp\<in>set pulled. \<exists>t. id' rp = i \<and> shouldSave getTime locals rp \<and>
                       map_of dir' (i @ ''.json'') = Some (Some (rp\<lparr>updatedAt := t\<rparr>))))
               \<and> ((\<forall>rp\<in>set pulled. id' rp = i \<longrightarrow> \<not> shouldSave getTime locals rp) \<longrightarrow>
                    map_of dir' (i @ ''.json'') = map_of dir (i @ ''.json''))"
      unfolding dir' by blast
  qed
  have 3: "\<forall>rp. shouldSave getTime locals rp =
                 (case find (\<lambda>p. id' p = id' rp) locals of
                    None \<Rightarrow> True
                  | Some l \<Rightarrow> jsGreater (getTime (updatedAt rp)) (getTime (updatedAt l)))"
    by (simp add: shouldSave_def)
  from 1 2 3 show ?thesis by blast
qed

theorem download_apply_guard_witness:
  "gdriveSync isoTime exampleServer exampleClock (exampleLocalDir, exampleRemoteOnly)
     = Inr (\<lparr>uploaded = [''A''], downloaded = [''B''], conflicts = []\<rparr>,
            [(''a.json'', Some (exampleProfile ''a'' ''A'' ''2024-01-01T00:00:00.000Z'')),
             (''b.json'', Some (exampleProfile ''b'' ''B'' ''2024-01-03T00:00:00.000Z''))],
            \<lparr>connected = True, appDataFolder =
               [exampleFile ''f1'' ''2024-01-02T00:00:00.000Z''
                  (exampleProfile ''b'' ''B'' ''2024-01-01T00:00:00.000Z''),
                exampleFile ''new'' ''2024-01-03T00:00:00.000Z''
                  (exampleProfile ''a'' ''A'' ''2024-01-01T00:00:00.000Z'')]\<rparr>)
   \<and> shouldSave isoTime [exampleProfile ''a'' ''A'' ''2024-01-01T00:00:00.000Z'']
        (exampleProfile ''b'' ''B'' ''2024-01-01T00:00:00.000Z'')
   \<and> \<not> shouldSave isoTime [exampleProfile ''a'' ''A'' ''2024-01-01T00:00:00.000Z'']
        (exampleProfile ''a'' ''A'' ''2024-01-01T00:00:00.000Z'')
   \<and> map_of
        [(''a.json'', Some (exampleProfile ''a'' ''A'' ''2024-01-01T00:00:00.000Z'')),
         (''b.json'', Some (exampleProfile ''b'' ''B'' ''2024-01-03T00:00:00.000Z''))]
        (''a'' @ ''.json'')
      = map_of exampleLocalDir (''a'' @ ''.json'')
   \<and> (\<exists>rp\<in>set [exampleProfile ''b'' ''B'' ''2024-01-01T00:00:00.000Z'',
                   exampleProfile ''a'' ''A'' ''2024-01-01T00:00:00.000Z''].
         \<exists>t. id' rp = ''b'' \<and>
           map_of
             [(''a.json'', Some (exampleProfile ''a'' ''A'' ''2024-01-01T00:00:00.000Z'')),
              (''b.json'', Some (exampleProfile ''b'' ''B'' ''2024-01-03T00:00:00.000Z''))]
             (''b'' @ ''.json'')
           = Some (Some (rp\<lparr>updatedAt := t\<rparr>)))
   \<and> gdriveSync isoTime exampleServer exampleClock (exampleConvergedDir, exampleDrive)
     = Inr (\<lparr>uploaded = [], downloaded = [], conflicts = []\<rparr>, exampleConvergedDir, exampleDrive)"
proof -
  let ?a = "exampleProfile ''a'' ''A'' ''2024-01-01T00:00:00.000Z''"
  let ?b = "exampleProfile ''b'' ''B'' ''2024-01-01T00:00:00.000Z''"
  let ?dir' = "[(''a.json'', Some ?a),
             (''b.json'', Some (exampleProfile ''b'' ''B'' ''2024-01-03T00:00:00.000Z''))]"
  let ?res = "\<lparr>uploaded = [''A''], downloaded = [''B''], conflicts = []\<rparr>"
  let ?drv' = "\<lparr>connected = True, appDataFolder =
               [exampleFile ''f1'' ''2024-01-02T00:00:00.000Z'' ?b,
                exampleFile ''new'' ''2024-01-03T00:00:00.000Z'' ?a]\<rparr>"
  let ?none = "\<lparr>uploaded = [], downloaded = [], conflicts = []\<rparr>"
  have run: "gdriveSync isoTime exampleServer exampleClock (exampleLocalDir, exampleRemoteOnly)
     = Inr (?res, ?dir', ?drv')"
    by code_simp
  have locals: "listProfiles isoTime exampleLocalDir = [?a]"
    by code_simp
  have pulled: "map profile (listRemoteProfiles (appDataFolder ?drv')) = [?b, ?a]"
    by code_simp
  have yes: "shouldSave isoTime [?a] ?b" by code_simp
  have no: "\<not> shouldSave isoTime [?a] ?a" by code_simp
  have ne: "downloaded ?res \<noteq> []" by simp
  note t = download_apply_guard[OF run locals pulled, THEN conjunct2, THEN conjunct1,
             THEN mp, OF ne, THEN spec]
  have none: "\<forall>rp\<in>set [?b, ?a]. id' rp = ''a'' \<longrightarrow> \<not> shouldSave isoTime [?a] rp"
    using no by (simp add: exampleProfile_def)
  from t[of "''a''", THEN conjunct2, THEN mp, OF none]
  have keep: "map_of ?dir' (''a'' @ ''.json'') = map_of exampleLocalDir (''a'' @ ''.json'')" .
  have some: "\<exists>rp\<in>set [?b, ?a]. id' rp = ''b'' \<and> shouldSave isoTime [?a] rp"
    using yes by (simp add: exampleProfile_def)
  from t[of "''b''", THEN conjunct1, THEN mp, OF some]
  have got: "\<exists>rp\<in>set [?b, ?a]. \<exists>t. id' rp = ''b'' \<and>
           map_of ?dir' (''b'' @ ''.json'') = Some (Some (rp\<lparr>updatedAt := t\<rparr>))"
    by blast
  have run0: "gdriveSync isoTime exampleServer exampleClock (exampleConvergedDir, exampleDrive)
     = Inr (?none, exampleConvergedDir, exampleDrive)"
    by code_simp
  have e: "downloaded ?none = []" by simp
  from download_apply_guard[OF run0 refl refl, THEN conjunct1, THEN mp, OF e]
  have "exampleConvergedDir = exampleConvergedDir" .
  with run yes no keep got run0 show ?thesis
    by (intro conjI) assumption+
qed

text \<open>
  C2 as stated fails twice over. First pass: \<open>A\<close> is marked for download, the
  local \<^verbatim>\<open>updatedAt\<close> is older than the remote \<^verbatim>\<open>modifiedTime\<close>, and yet nothing is
  written, the profile inside the remote file being no newer than the local one.
  Second pass: two remote files hold profiles of one id; the first is saved, and
  the second is saved over it although the store then holds a profile of that id
  whose \<^verbatim>\<open>updatedAt\<close> is later than the second file's \<^verbatim>\<open>modifiedTime\<close>.
\<close>

theorem download_apply_guard_counterexample:
  "gdriveSync isoTime exampleServer exampleClock (exampleLocalDir, exampleDrive)
     = Inr (\<lparr>uploaded = [], downloaded = [''A''], conflicts = []\<rparr>, exampleLocalDir, exampleDrive)
   \<and> jsGreater (isoTime ''2024-01-02T00:00:00.000Z'') (isoTime ''2024-01-01T00:00:00.000Z'')
   \<and> gdriveSync isoTime exampleServer exampleClock ([], exampleDuplicates)
     = Inr (\<lparr>uploaded = [], downloaded = [''X1'', ''X2''], conflicts = []\<rparr>,
            [(''x.json'', Some (exampleProfile ''x'' ''X2'' ''2024-01-03T00:00:00.000Z''))],
            exampleDuplicates)
   \<and> saveDownloaded isoTime exampleClock 0 []
        [exampleProfile ''x'' ''X1'' ''2024-01-01T00:00:00.000Z''] []
     = [(''x.json'', Some (exampleProfile ''x'' ''X1'' ''2024-01-03T00:00:00.000Z''))]
   \<and> \<not> jsGreater (isoTime ''2024-01-02T00:00:00.000Z'') (isoTime ''2024-01-03T00:00:00.000Z'')"
  by code_simp

text \<open>
  C3, as amended. A pass of the handler that reports nothing uploaded and nothing
  downloaded has changed neither store, and a pass right after it, whatever the
  server and the clock answer, reports the same and changes nothing again.
\<close>

theorem sync_fixed_point:
  assumes "gdriveSync getTime srv clk (dir, drv) = Inr (res, dir', drv')"
    and "uploaded res = []" and "downloaded res = []"
  shows "dir' = dir \<and> drv' = drv
       \<and> gdriveSync getTime srv2 clk2 (dir', drv') = Inr (res, dir', drv')"
proof -
  note ch = gdriveSync_char[OF assms(1) refl refl refl]
  let ?locals = "listProfiles getTime dir"
  let ?rm = "remoteMapOf (listRemoteProfiles (appDataFolder drv))"
  have ups: "filter (uploadDue getTime ?rm) ?locals = []"
    using ch(1) assms(2) by simp
  have drv: "drv' = drv"
    using ch(6) unfolding ups by simp
  have dir: "dir' = dir"
    using ch(7) assms(3) by simp
  have c: "connected drv"
    using assms(1) by (rule gdriveSync_connected)
  have res: "res = \<lparr>uploaded = [], downloaded = [], conflicts = []\<rparr>"
    using assms(2,3) ch(3) by (cases res) simp
  have sp: "syncProfiles getTime srv2 ?locals drv = Inr (res, drv)"
    unfolding syncProfiles_char[OF c] ups res
    using ch(2) assms(3) by simp
  have "gdriveSync getTime srv2 clk2 (dir, drv) = Inr (res, dir, drv)"
    using sp assms(3) by (simp add: gdriveSync_def Let_def)
  with drv dir show ?thesis by simp
qed

theorem sync_fixed_point_witness:
  "gdriveSync isoTime exampleServer exampleClock (exampleConvergedDir, exampleDrive)
     = Inr (\<lparr>uploaded = [], downloaded = [], conflicts = []\<rparr>, exampleConvergedDir, exampleDrive)
   \<and> gdriveSync isoTime (\<lambda>k. ([], [])) (\<lambda>k. []) (exampleConvergedDir, exampleDrive)
     = Inr (\<lparr>uploaded = [], downloaded = [], conflicts = []\<rparr>, exampleConvergedDir, exampleDrive)"
proof -
  have run: "gdriveSync isoTime exampleServer exampleClock (exampleConvergedDir, exampleDrive)
     = Inr (\<lparr>uploaded = [], downloaded = [], conflicts = []\<rparr>, exampleConvergedDir, exampleDrive)"
    by code_simp
  from sync_fixed_point[OF run, of "\<lambda>k. ([], [])" "\<lambda>k. []"] run show ?thesis
    by simp
qed

text \<open>
  C3 as stated fails. A first pass uploads the local-only \<open>A\<close> and downloads the
  remote-only \<open>B\<close>; the server stamps the upload and the save stamps the download,
  so a second pass right after it finds \<open>B\<close> newer locally and \<open>A\<close> newer
  remotely: it uploads \<open>B\<close> and reports \<open>A\<close> as downloaded.
\<close>

theorem sync_not_idempotent_counterexample:
  "gdriveSync isoTime exampleServer exampleClock (exampleLocalDir, exampleRemoteOnly)
     = Inr (\<lparr>uploaded = [''A''], downloaded = [''B''], conflicts = []\<rparr>,
            [(''a.json'', Some (exampleProfile ''a'' ''A'' ''2024-01-01T00:00:00.000Z'')),
             (''b.json'', Some (exampleProfile ''b'' ''B'' ''2024-01-03T00:00:00.000Z''))],
            \<lparr>connected = True, appDataFolder =
               [exampleFile ''f1'' ''2024-01-02T00:00:00.000Z''
                  (exampleProfile ''b'' ''B'' ''2024-01-01T00:00:00.000Z''),
                exampleFile ''new'' ''2024-01-03T00:00:00.000Z''
                  (exampleProfile ''a'' ''A'' ''2024-01-01T00:00:00.000Z'')]\<rparr>)
   \<and> gdriveSync isoTime exampleServer exampleClock
        ([(''a.json'', Some (exampleProfile ''a'' ''A'' ''2024-01-01T00:00:00.000Z'')),
          (''b.json'', Some (exampleProfile ''b'' ''B'' ''2024-01-03T00:00:00.000Z''))],
         \<lparr>connected = True, appDataFolder =
               [exampleFile ''f1'' ''2024-01-02T00:00:00.000Z''
                  (exampleProfile ''b'' ''B'' ''2024-01-01T00:00:00.000Z''),
                exampleFile ''new'' ''2024-01-03T00:00:00.000Z''
                  (exampleProfile ''a'' ''A'' ''2024-01-01T00:00:00.000Z'')]\<rparr>)
     = Inr (\<lparr>uploaded = [''B''], downloaded = [''A''], conflicts = []\<rparr>,
            [(''a.json'', Some (exampleProfile ''a'' ''A'' ''2024-01-01T00:00:00.000Z'')),
             (''b.json'', Some (exampleProfile ''b'' ''B'' ''2024-01-03T00:00:00.000Z''))],
            \<lparr>connected = True, appDataFolder =
               [exampleFile ''f1'' ''2024-01-03T00:00:00.000Z''
                  (exampleProfile ''b'' ''B'' ''2024-01-03T00:00:00.000Z''),
                exampleFile ''new'' ''2024-01-03T00:00:00.000Z''
                  (exampleProfile ''a'' ''A'' ''2024-01-01T00:00:00.000Z'')]\<rparr>)"
  by code_simp

section \<open>Backup before apply\<close>

lemma lookupNode_append:
  "lookupNode (fs @ added) q =
     (case lookupNode fs q of Some n \<Rightarrow> Some n | None \<Rightarrow> map_of added q)"
  by (auto simp: lookupNode_def map_add_def split: option.splits)

lemma mkdirAll_appends:
  "mkdirAll qs fs = Inr fs1 \<Longrightarrow> \<exists>added. fs1 = fs @ added \<and> (\<forall>e\<in>set added. snd e = Dir)"
proof (induction qs arbitrary: fs)
  case Nil
  then show ?case by simp
next
  case (Cons q qs)
  show ?case
  proof (cases "lookupNode fs q")
    case None
    with Cons.prems have "mkdirAll qs (fs @ [(q, Dir)]) = Inr fs1" by simp
    from Cons.IH[OF this] obtain added where
      "fs1 = (fs @ [(q, Dir)]) @ added" "\<forall>e\<in>set added. snd e = Dir" by blast
    then have "fs1 = fs @ ((q, Dir) # added) \<and> (\<forall>e\<in>set ((q, Dir) # added). snd e = Dir)"
      by simp
    then show ?thesis by blast
  next
    case (Some n)
    with Cons.prems have "n = Dir" "mkdirAll qs fs = Inr fs1"
      by (cases n; simp)+
    then show ?thesis using Cons.IH by blast
  qed
qed

lemma fileContent_append_dirs:
  assumes "\<forall>e\<in>set added. snd e = Dir"
  shows "fileContent (fs @ added) q = fileContent fs q"
proof (cases "lookupNode fs q")
  case (Some n)
  then show ?thesis by (simp add: fileContent_def lookupNode_append)
next
  case None
  have "map_of added q = None \<or> map_of added q = Some Dir"
  proof (cases "map_of added q")
    case (Some n)
    then have "(q, n) \<in> set added" by (rule map_of_SomeD)
    with assms have "n = Dir" by auto
    with Some show ?thesis by simp
  qed simp
  with None show ?thesis
    by (auto simp: fileContent_def lookupNode_append)
qed

lemma lookupNode_append_mono:
  "lookupNode fs q = Some n \<Longrightarrow> lookupNode (fs @ added) q = Some n"
  by (simp add: lookupNode_append)

lemma writeFileSync_lookup:
  "writeFileSync p c fs = Inr fs1 \<Longrightarrow>
     lookupNode fs1 q = (if q = p then Some (File c) else lookupNode fs q)"
  by (auto simp: writeFileSync_def lookupNode_def update_conv'
           split: option.splits node.splits if_splits)

lemma copyFileSync_lookup:
  "copyFileSync faulty src dst fs = Inr fs1 \<Longrightarrow> q \<noteq> dst \<Longrightarrow> lookupNode fs1 q = lookupNode fs q"
proof -
  assume a: "copyFileSync faulty src dst fs = Inr fs1" and ne: "q \<noteq> dst"
  from a obtain c where "writeFileSync dst c fs = Inr fs1"
    by (auto simp: copyFileSync_def split: sum.splits)
  from writeFileSync_lookup[OF this, of q] ne show ?thesis by simp
qed

lemma copyFileSync_faulty:
  "faulty src \<Longrightarrow> \<exists>e. copyFileSync faulty src dst fs = Inl e"
  by (auto simp: copyFileSync_def readFileSync_def split: option.splits node.splits)

lemma lua_name_plain:
  "endsWith f ''.lua'' \<or> endsWith f ''.lua.bak'' \<Longrightarrow> pathJoin base [f] = base @ [f]"
  by (auto simp: endsWith_def pathJoin_def)

lemma copyBackupFiles_outside:
  "copyBackupFiles faulty sv bd entries fs = (r, fs1) \<Longrightarrow> \<not> prefix bd q \<Longrightarrow>
     lookupNode fs1 q = lookupNode fs q"
proof (induction entries arbitrary: fs)
  case Nil
  then show ?case by simp
next
  case (Cons f entries)
  show ?case
  proof (cases "endsWith f ''.lua'' \<or> endsWith f ''.lua.bak''")
    case False
    with Cons show ?thesis by simp
  next
    case True
    then have dst: "pathJoin bd [f] = bd @ [f]" by (rule lua_name_plain)
    have ne: "q \<noteq> bd @ [f]" using Cons.prems(2) by auto
    show ?thesis
    proof (cases "copyFileSync faulty (pathJoin sv [f]) (bd @ [f]) fs")
      case (Inl e)
      with Cons.prems(1) True dst show ?thesis by (simp add: Let_def)
    next
      case (Inr fs')
      with Cons.prems(1) True dst have "copyBackupFiles faulty sv bd entries fs' = (r, fs1)"
        by (simp add: Let_def)
      from Cons.IH[OF this Cons.prems(2)] copyFileSync_lookup[OF Inr ne] show ?thesis by simp
    qed
  qed
qed

lemma copyBackupFiles_faulty:
  assumes "f \<in> set entries" "endsWith f ''.lua'' \<or> endsWith f ''.lua.bak''"
    and "faulty (pathJoin sv [f])"
  shows "\<exists>e fs1. copyBackupFiles faulty sv bd entries fs = (Some e, fs1)"
  using assms(1)
proof (induction entries arbitrary: fs)
  case Nil
  then show ?case by simp
next
  case (Cons g entries)
  show ?case
  proof (cases "endsWith g ''.lua'' \<or> endsWith g ''.lua.bak''")
    case False
    with Cons assms(2) show ?thesis by auto
  next
    case True
    show ?thesis
    proof (cases "copyFileSync faulty (pathJoin sv [g]) (pathJoin bd [g]) fs")
      case (Inl e)
      with True show ?thesis by (simp add: Let_def)
    next
      case (Inr fs')
      with copyFileSync_faulty[of faulty "pathJoin sv [f]" "pathJoin bd [f]" fs] assms(3)
      have "g \<noteq> f" by auto
      with Cons.prems have "f \<in> set entries" by simp
      from Cons.IH[OF this, of fs'] True Inr show ?thesis by (simp add: Let_def)
    qed
  qed
qed

lemma fileContent_cong: "lookupNode fs1 q = lookupNode fs q \<Longrightarrow> fileContent fs1 q = fileContent fs q"
  by (simp add: fileContent_def)

lemma createBackup_outside:
  assumes "createBackup faulty backupsDir now wowPath version account fs = (r, fs1)"
    and "\<not> prefix (backupDirOf backupsDir now account) q"
  shows "fileContent fs1 q = fileContent fs q"
proof -
  let ?sv = "pathJoin wowPath [getVersionFolder version, ''WTF'', ''Account'', account, ''SavedVariables'']"
  let ?bd = "backupDirOf backupsDir now account"
  show ?thesis
  proof (cases "existsSync ?sv fs")
    case False
    with assms(1) show ?thesis by (simp add: createBackup_def Let_def)
  next
    case True
    show ?thesis
    proof (cases "mkdirSync ?bd fs")
      case (Inl e)
      with assms(1) True show ?thesis by (simp add: createBackup_def Let_def)
    next
      case (Inr fs0)
      then obtain added where added: "fs0 = fs @ added" "\<forall>e\<in>set added. snd e = Dir"
        unfolding mkdirSync_def using mkdirAll_appends by blast
      have fc0: "fileContent fs0 q = fileContent fs q"
        unfolding added(1) using added(2) by (rule fileContent_append_dirs)
      show ?thesis
      proof (cases "readdirSync ?sv fs0")
        case (Inl e)
        with assms(1) True Inr fc0 show ?thesis by (simp add: createBackup_def Let_def)
      next
        case (Inr entries)
        with assms(1) True \<open>mkdirSync ?bd fs = Inr fs0\<close>
        have "copyBackupFiles faulty ?sv ?bd entries fs0 = (r, fs1)"
          by (simp add: createBackup_def Let_def)
        from copyBackupFiles_outside[OF this assms(2)] fc0 show ?thesis
          by (simp add: fileContent_def)
      qed
    qed
  qed
qed

lemma readdirSync_append:
  assumes "readdirSync p fs = Inr entries"
  shows "\<exists>entries'. readdirSync p (fs @ added) = Inr entries' \<and> set entries \<subseteq> set entries'"
proof -
  from assms have d: "lookupNode fs p = Some Dir"
    by (auto simp: readdirSync_def split: option.splits node.splits)
  then have "lookupNode (fs @ added) p = Some Dir" by (rule lookupNode_append_mono)
  with d assms show ?thesis by (auto simp: readdirSync_def)
qed

lemma createBackup_faulty:
  assumes "readdirSync (pathJoin wowPath [getVersionFolder version, ''WTF'', ''Account'', account, ''SavedVariables'']) fs = Inr entries"
    and "f \<in> set entries" "endsWith f ''.lua'' \<or> endsWith f ''.lua.bak''"
    and "faulty (pathJoin (pathJoin wowPath [getVersionFolder version, ''WTF'', ''Account'', account, ''SavedVariables'']) [f])"
  shows "\<exists>e fs1. createBackup faulty backupsDir now wowPath version account fs = (Some e, fs1)"
proof -
  let ?sv = "pathJoin wowPath [getVersionFolder version, ''WTF'', ''Account'', account, ''SavedVariables'']"
  let ?bd = "backupDirOf backupsDir now account"
  have ex: "existsSync ?sv fs"
    using assms(1) by (auto simp: readdirSync_def existsSync_def split: option.splits)
  show ?thesis
  proof (cases "mkdirSync ?bd fs")
    case (Inl e)
    with ex show ?thesis by (simp add: createBackup_def Let_def)
  next
    case (Inr fs0)
    then obtain added where added: "fs0 = fs @ added"
      unfolding mkdirSync_def using mkdirAll_appends by blast
    from readdirSync_append[OF assms(1), of added] obtain entries'
      where rd: "readdirSync ?sv fs0 = Inr entries'" and sub: "set entries \<subseteq> set entries'"
      unfolding added by blast
    have "f \<in> set entries'" using assms(2) sub by blast
    from copyBackupFiles_faulty[where faulty = faulty and sv = ?sv and bd = ?bd and fs = fs0,
        OF this assms(3,4)]
    obtain e fs1 where "copyBackupFiles faulty ?sv ?bd entries' fs0 = (Some e, fs1)"
      by blast
    with ex Inr rd show ?thesis by (simp add: createBackup_def Let_def)
  qed
qed

lemma mkdirSync_content: "mkdirSync p fs = Inr fs1 \<Longrightarrow> fileContent fs1 = fileContent fs"
proof -
  assume "mkdirSync p fs = Inr fs1"
  then obtain added where "fs1 = fs @ added" "\<forall>e\<in>set added. snd e = Dir"
    unfolding mkdirSync_def using mkdirAll_appends by blast
  then show ?thesis
    using fileContent_append_dirs by auto
qed

lemma writeFileSync_content:
  "writeFileSync p c fs = Inr fs1 \<Longrightarrow> fileContent fs1 = (fileContent fs)(p \<mapsto> c)"
proof
  fix q
  assume "writeFileSync p c fs = Inr fs1"
  from writeFileSync_lookup[OF this, of q]
  show "fileContent fs1 q = ((fileContent fs)(p \<mapsto> c)) q"
    by (simp add: fileContent_def)
qed

lemma overlay_step: "(m(p \<mapsto> c)) ++ map_of (rev ws) = m ++ map_of (rev ((p, c) # ws))"
  by (rule ext) (simp add: map_add_def split: option.splits)

lemma writeFiles_step:
  assumes "writeFiles sv ((fileKey, content) # rest) fs = (None, fs')"
    and "hd (splitSlash fileKey) = ''account''"
  shows "\<exists>fileName more fs1 fs2. tl (splitSlash fileKey) = fileName # more \<and>
           fileContent fs1 = fileContent fs \<and>
           writeFileSync (pathJoin sv [fileName]) content fs1 = Inr fs2 \<and>
           writeFiles sv rest fs2 = (None, fs')"
proof (cases "tl (splitSlash fileKey)")
  case Nil
  with assms show ?thesis by (simp add: Let_def)
next
  case (Cons fileName more)
  let ?target = "pathJoin sv [fileName]"
  let ?mk = "if \<not> existsSync (dirname ?target) fs then mkdirSync (dirname ?target) fs else Inr fs"
  have unf: "writeFiles sv ((fileKey, content) # rest) fs =
      (case ?mk of
         Inl e \<Rightarrow> (Some e, fs)
       | Inr fs1 \<Rightarrow>
           (case writeFileSync ?target content fs1 of
              Inl e \<Rightarrow> (Some e, fs1)
            | Inr fs2 \<Rightarrow> writeFiles sv rest fs2))"
    using assms(2) Cons by (simp add: Let_def)
  show ?thesis
  proof (cases ?mk)
    case (Inl e)
    with assms(1) show ?thesis unfolding unf by simp
  next
    case (Inr fs1)
    note mk = this
    have c1: "fileContent fs1 = fileContent fs"
    proof (cases "existsSync (dirname ?target) fs")
      case True
      with mk show ?thesis by simp
    next
      case False
      with mk have "mkdirSync (dirname ?target) fs = Inr fs1" by simp
      then show ?thesis by (rule mkdirSync_content)
    qed
    show ?thesis
    proof (cases "writeFileSync ?target content fs1")
      case (Inl e)
      with assms(1) mk show ?thesis unfolding unf by simp
    next
      case (Inr fs2)
      with assms(1) mk have "writeFiles sv rest fs2 = (None, fs')" unfolding unf by simp
      with Cons c1 Inr show ?thesis by blast
    qed
  qed
qed

lemma writeFiles_content:
  "writeFiles sv kvs fs = (None, fs') \<Longrightarrow>
     fileContent fs' = fileContent fs ++ map_of (rev (fileWrites sv kvs))"
proof (induction kvs arbitrary: fs)
  case Nil
  then show ?case by simp
next
  case (Cons kv kvs)
  obtain fileKey content where kv: "kv = (fileKey, content)" by (cases kv)
  show ?case
  proof (cases "hd (splitSlash fileKey) = ''account''")
    case False
    then have "writeFiles sv (kv # kvs) fs = writeFiles sv kvs fs"
      by (simp add: kv Let_def)
    with Cons False show ?thesis by (simp add: kv)
  next
    case True
    from writeFiles_step[OF Cons.prems[unfolded kv] True]
    obtain fileName more fs1 fs2 where st: "tl (splitSlash fileKey) = fileName # more"
      "fileContent fs1 = fileContent fs"
      "writeFileSync (pathJoin sv [fileName]) content fs1 = Inr fs2"
      "writeFiles sv kvs fs2 = (None, fs')"
      by blast
    have c2: "fileContent fs2 = (fileContent fs)(pathJoin sv [fileName] \<mapsto> content)"
      using writeFileSync_content[OF st(3)] st(2) by simp
    have w: "fileWrites sv (kv # kvs) = (pathJoin sv [fileName], content) # fileWrites sv kvs"
      using True st(1) by (simp add: kv)
    have "fileContent fs' = fileContent fs2 ++ map_of (rev (fileWrites sv kvs))"
      using st(4) by (rule Cons.IH)
    then show ?thesis
      unfolding c2 w by (simp only: overlay_step)
  qed
qed

lemma overlay_append:
  "(m ++ map_of (rev ws1)) ++ map_of (rev ws2) = m ++ map_of (rev (ws1 @ ws2))"
  by (simp add: map_add_assoc)

lemma writeAddons_content:
  "writeAddons sv as fs = (None, fs') \<Longrightarrow>
     fileContent fs' = fileContent fs ++ map_of (rev (addonWrites sv as))"
proof (induction as arbitrary: fs)
  case Nil
  then show ?case by simp
next
  case (Cons a as)
  obtain addonName addonConfig where a: "a = (addonName, addonConfig)" by (cases a)
  show ?case
  proof (cases "enabled addonConfig")
    case False
    then have "writeAddons sv (a # as) fs = writeAddons sv as fs" by (simp add: a)
    with Cons False show ?thesis by (simp add: a)
  next
    case True
    obtain r fs1 where w: "writeFiles sv (files addonConfig) fs = (r, fs1)"
      by (cases "writeFiles sv (files addonConfig) fs")
    have unf: "writeAddons sv (a # as) fs =
        (case r of Some e \<Rightarrow> (Some e, fs1) | None \<Rightarrow> writeAddons sv as fs1)"
      using True w by (simp add: a split: option.splits)
    show ?thesis
    proof (cases r)
      case (Some e)
      with Cons.prems show ?thesis unfolding unf by simp
    next
      case None
      with Cons.prems have rest: "writeAddons sv as fs1 = (None, fs')" unfolding unf by simp
      have c1: "fileContent fs1 = fileContent fs ++ map_of (rev (fileWrites sv (files addonConfig)))"
        using w None writeFiles_content by blast
      have aw: "addonWrites sv (a # as) = fileWrites sv (files addonConfig) @ addonWrites sv as"
        using True by (simp add: a)
      have "fileContent fs' = fileContent fs1 ++ map_of (rev (addonWrites sv as))"
        using rest by (rule Cons.IH)
      then show ?thesis
        unfolding c1 aw by (simp only: overlay_append)
    qed
  qed
qed

lemma writeProfile_content:
  "writeProfile p wowPath fs = (None, fs') \<Longrightarrow>
     fileContent fs' = fileContent fs ++ map_of (rev (profileWrites p wowPath))"
proof -
  assume run: "writeProfile p wowPath fs = (None, fs')"
  let ?acc = "pathJoin wowPath
            [getVersionFolder (wowVersion p), ''WTF'', ''Account'',
             case_option [] (\<lambda>a. a) (accountName p)]"
  let ?sv = "pathJoin ?acc [''SavedVariables'']"
  from run obtain fs1 where w: "writeAddons ?sv (addons p) fs = (None, fs1)"
    by (auto simp: writeProfile_def Let_def split: prod.splits option.splits)
  note c1 = writeAddons_content[OF w]
  show ?thesis
  proof (cases "gameSettings p")
    case None
    with run w have "fs' = fs1" by (simp add: writeProfile_def Let_def)
    with c1 None show ?thesis by (simp add: profileWrites_def Let_def)
  next
    case (Some g)
    show ?thesis
    proof (cases "g = []")
      case True
      with run w Some have "fs' = fs1" by (simp add: writeProfile_def Let_def)
      with c1 Some True show ?thesis by (simp add: profileWrites_def Let_def)
    next
      case False
      with run w Some have wr: "writeFileSync (pathJoin ?acc [''config-cache.wtf'']) g fs1 = Inr fs'"
        by (auto simp: writeProfile_def Let_def split: sum.splits)
      let ?cfg = "pathJoin ?acc [''config-cache.wtf'']"
      have "fileContent fs' = (fileContent fs1)(?cfg \<mapsto> g)"
        using wr by (rule writeFileSync_content)
      also have "\<dots> = fileContent fs1 ++ map_of (rev [(?cfg, g)])"
        by simp
      finally have c2: "fileContent fs' = fileContent fs1 ++ map_of (rev [(?cfg, g)])" .
      have pw: "profileWrites p wowPath = addonWrites ?sv (addons p) @ [(?cfg, g)]"
        using Some False by (simp add: profileWrites_def Let_def)
      show ?thesis
        unfolding c2 c1 pw by (simp only: overlay_append)
    qed
  qed
qed

text \<open>
  C5. When \<^verbatim>\<open>createBackup\<close> throws, \<^verbatim>\<open>loadProfile\<close> throws the same error in the
  same state, and in that state every file outside the new backup directory has
  the content it had before: nothing of the profile has been written. An entry of
  \<^verbatim>\<open>SavedVariables\<close> named \<^verbatim>\<open>*.lua\<close> or \<^verbatim>\<open>*.lua.bak\<close> that cannot be read makes
  \<^verbatim>\<open>createBackup\<close> throw. When \<^verbatim>\<open>SavedVariables\<close> does not exist, \<^verbatim>\<open>createBackup\<close> changes nothing
  and \<^verbatim>\<open>loadProfile\<close> goes on to write the profile: where it returns without an
  error, every target of a write holds the content written to it last, and every
  other file what it held before.
\<close>

theorem backup_failure_aborts_apply:
  assumes "account = case_option [] (\<lambda>a. a) (accountName p)"
    and "savedVarsPath = pathJoin wowPath
           [getVersionFolder (wowVersion p), ''WTF'', ''Account'', account, ''SavedVariables'']"
    and "backupDir = backupDirOf backupsDir now account"
  shows "(\<forall>e fs1. createBackup faulty backupsDir now wowPath (wowVersion p) account fs = (Some e, fs1) \<longrightarrow>
            loadProfile faulty backupsDir now p wowPath fs = (Some e, fs1) \<and>
            (\<forall>q. \<not> prefix backupDir q \<longrightarrow> fileContent fs1 q = fileContent fs q))
       \<and> (\<forall>entries f. readdirSync savedVarsPath fs = Inr entries \<and> f \<in> set entries \<and>
              (endsWith f ''.lua'' \<or> endsWith f ''.lua.bak'') \<and>
              faulty (pathJoin savedVarsPath [f]) \<longrightarrow>
            (\<exists>e fs1. createBackup faulty backupsDir now wowPath (wowVersion p) account fs
                        = (Some e, fs1)))
       \<and> (\<not> existsSync savedVarsPath fs \<longrightarrow>
            createBackup faulty backupsDir now wowPath (wowVersion p) account fs = (None, fs) \<and>
            loadProfile faulty backupsDir now p wowPath fs = writeProfile p wowPath fs \<and>
            (\<forall>fs'. loadProfile faulty backupsDir now p wowPath fs = (None, fs') \<longrightarrow>
               fileContent fs' = fileContent fs ++ map_of (rev (profileWrites p wowPath))))"
proof (intro conjI allI impI)
  fix e fs1
  assume a: "createBackup faulty backupsDir now wowPath (wowVersion p) account fs = (Some e, fs1)"
  then show "loadProfile faulty backupsDir now p wowPath fs = (Some e, fs1)"
    by (simp add: loadProfile_def assms(1))
  fix q
  assume "\<not> prefix backupDir q"
  with a show "fileContent fs1 q = fileContent fs q"
    unfolding assms(3) by (rule createBackup_outside)
next
  fix entries f
  assume "readdirSync savedVarsPath fs = Inr entries \<and> f \<in> set entries \<and>
              (endsWith f ''.lua'' \<or> endsWith f ''.lua.bak'') \<and>
              faulty (pathJoin savedVarsPath [f])"
  then show "\<exists>e fs1. createBackup faulty backupsDir now wowPath (wowVersion p) account fs
                        = (Some e, fs1)"
    unfolding assms(2) using createBackup_faulty by blast
next
  assume a: "\<not> existsSync savedVarsPath fs"
  then show c: "createBackup faulty backupsDir now wowPath (wowVersion p) account fs = (None, fs)"
    by (simp add: createBackup_def Let_def assms(2))
  then show l: "loadProfile faulty backupsDir now p wowPath fs = writeProfile p wowPath fs"
    by (simp add: loadProfile_def assms(1))
  fix fs'
  assume "loadProfile faulty backupsDir now p wowPath fs = (None, fs')"
  then have "writeProfile p wowPath fs = (None, fs')"
    unfolding l .
  then show "fileContent fs' = fileContent fs ++ map_of (rev (profileWrites p wowPath))"
    by (rule writeProfile_content)
qed

theorem backup_failure_aborts_apply_witness:
  "loadProfile (\<lambda>q. q = exampleAccountPath @ [''SavedVariables'', ''ElvUI.lua''])
       [''data'', ''backups''] ''2024-01-03T00:00:00.000Z'' exampleSettings [''wow''] exampleFs
     = (Some EIO,
        exampleFs @ [([''data'', ''backups'', ''ACC-2024-01-03T00-00-00-000Z''], Dir)])
   \<and> fileContent
        (exampleFs @ [([''data'', ''backups'', ''ACC-2024-01-03T00-00-00-000Z''], Dir)])
        (exampleAccountPath @ [''config-cache.wtf''])
      = fileContent exampleFs (exampleAccountPath @ [''config-cache.wtf''])
   \<and> readdirSync (exampleAccountPath @ [''SavedVariables'']) exampleFs = Inr [''ElvUI.lua'']
   \<and> (\<exists>e fs1. createBackup (\<lambda>q. q = exampleAccountPath @ [''SavedVariables'', ''ElvUI.lua''])
          [''data'', ''backups''] ''2024-01-03T00:00:00.000Z'' [''wow''] retail ''ACC'' exampleFs
        = (Some e, fs1))
   \<and> loadProfile (\<lambda>q. False) [''data'', ''backups''] ''2024-01-03T00:00:00.000Z''
        exampleSettings [''wow''] [([''data''], Dir), ([''data'', ''backups''], Dir)]
      = writeProfile exampleSettings [''wow''] [([''data''], Dir), ([''data'', ''backups''], Dir)]
   \<and> loadProfile (\<lambda>q. False) [''data'', ''backups''] ''2024-01-03T00:00:00.000Z''
        exampleSettings [''wow''] [([''data''], Dir), ([''data'', ''backups''], Dir)]
      = (None,
         [([''data''], Dir), ([''data'', ''backups''], Dir), ([''wow''], Dir),
          ([''wow'', ''_retail_''], Dir), ([''wow'', ''_retail_'', ''WTF''], Dir),
          ([''wow'', ''_retail_'', ''WTF'', ''Account''], Dir),
          ([''wow'', ''_retail_'', ''WTF'', ''Account'', ''ACC''], Dir),
          ([''wow'', ''_retail_'', ''WTF'', ''Account'', ''ACC'', ''SavedVariables''], Dir),
          ([''wow'', ''_retail_'', ''WTF'', ''Account'', ''ACC'', ''SavedVariables'', ''ElvUI.lua''],
           File ''new-elvui''),
          ([''wow'', ''_retail_'', ''WTF'', ''Account'', ''ACC'', ''config-cache.wtf''],
           File ''new-cfg'')])
   \<and> profileWrites exampleSettings [''wow'']
      = [([''wow'', ''_retail_'', ''WTF'', ''Account'', ''ACC'', ''SavedVariables'', ''ElvUI.lua''],
          ''new-elvui''),
         ([''wow'', ''_retail_'', ''WTF'', ''Account'', ''ACC'', ''config-cache.wtf''], ''new-cfg'')]
   \<and> fileContent
        [([''data''], Dir), ([''data'', ''backups''], Dir), ([''wow''], Dir),
          ([''wow'', ''_retail_''], Dir), ([''wow'', ''_retail_'', ''WTF''], Dir),
          ([''wow'', ''_retail_'', ''WTF'', ''Account''], Dir),
          ([''wow'', ''_retail_'', ''WTF'', ''Account'', ''ACC''], Dir),
          ([''wow'', ''_retail_'', ''WTF'', ''Account'', ''ACC'', ''SavedVariables''], Dir),
          ([''wow'', ''_retail_'', ''WTF'', ''Account'', ''ACC'', ''SavedVariables'', ''ElvUI.lua''],
           File ''new-elvui''),
          ([''wow'', ''_retail_'', ''WTF'', ''Account'', ''ACC'', ''config-cache.wtf''],
           File ''new-cfg'')]
      = fileContent [([''data''], Dir), ([''data'', ''backups''], Dir)]
          ++ map_of (rev (profileWrites exampleSettings [''wow'']))"
proof -
  let ?faulty = "\<lambda>q. q = exampleAccountPath @ [''SavedVariables'', ''ElvUI.lua'']"
  let ?sv = "exampleAccountPath @ [''SavedVariables'']"
  let ?bd = "[''data'', ''backups'', ''ACC-2024-01-03T00-00-00-000Z'']"
  let ?fs1 = "exampleFs @ [(?bd, Dir)]"
  let ?bare = "[([''data''], Dir), ([''data'', ''backups''], Dir)]"
  let ?out = "[([''data''], Dir), ([''data'', ''backups''], Dir), ([''wow''], Dir),
          ([''wow'', ''_retail_''], Dir), ([''wow'', ''_retail_'', ''WTF''], Dir),
          ([''wow'', ''_retail_'', ''WTF'', ''Account''], Dir),
          ([''wow'', ''_retail_'', ''WTF'', ''Account'', ''ACC''], Dir),
          ([''wow'', ''_retail_'', ''WTF'', ''Account'', ''ACC'', ''SavedVariables''], Dir),
          ([''wow'', ''_retail_'', ''WTF'', ''Account'', ''ACC'', ''SavedVariables'', ''ElvUI.lua''],
           File ''new-elvui''),
          ([''wow'', ''_retail_'', ''WTF'', ''Account'', ''ACC'', ''config-cache.wtf''],
           File ''new-cfg'')]"
  have acc: "''ACC'' = case_option [] (\<lambda>a. a) (accountName exampleSettings)"
    by code_simp
  have v: "wowVersion exampleSettings = retail"
    by code_simp
  have sv: "?sv = pathJoin [''wow'']
      [getVersionFolder (wowVersion exampleSettings), ''WTF'', ''Account'', ''ACC'', ''SavedVariables'']"
    by code_simp
  have bd: "?bd = backupDirOf [''data'', ''backups''] ''2024-01-03T00:00:00.000Z'' ''ACC''"
    by code_simp
  note t = backup_failure_aborts_apply[OF acc sv bd]
  have rd: "readdirSync ?sv exampleFs = Inr [''ElvUI.lua'']"
    by code_simp
  have lua: "endsWith ''ElvUI.lua'' ''.lua''"
    by code_simp
  have f: "?faulty (pathJoin ?sv [''ElvUI.lua''])"
    by code_simp
  have cb: "createBackup ?faulty [''data'', ''backups''] ''2024-01-03T00:00:00.000Z'' [''wow'']
      (wowVersion exampleSettings) ''ACC'' exampleFs = (Some EIO, ?fs1)"
    by code_simp
  have np: "\<not> prefix ?bd (exampleAccountPath @ [''config-cache.wtf''])"
    by code_simp
  have ne: "\<not> existsSync ?sv ?bare"
    by code_simp
  note t1 = t[of ?faulty exampleFs, THEN conjunct1, rule_format, OF cb]
  from t1 have 1: "loadProfile ?faulty [''data'', ''backups''] ''2024-01-03T00:00:00.000Z''
      exampleSettings [''wow''] exampleFs = (Some EIO, ?fs1)"
    by (rule conjunct1)
  from t1[THEN conjunct2, rule_format, OF np]
  have 2: "fileContent ?fs1 (exampleAccountPath @ [''config-cache.wtf''])
      = fileContent exampleFs (exampleAccountPath @ [''config-cache.wtf''])" .
  have h: "readdirSync ?sv exampleFs = Inr [''ElvUI.lua''] \<and> ''ElvUI.lua'' \<in> set [''ElvUI.lua''] \<and>
      (endsWith ''ElvUI.lua'' ''.lua'' \<or> endsWith ''ElvUI.lua'' ''.lua.bak'') \<and>
      ?faulty (pathJoin ?sv [''ElvUI.lua''])"
    using rd lua f by simp
  from t[of ?faulty exampleFs, THEN conjunct2, THEN conjunct1, rule_format, OF h]
  have 4: "\<exists>e fs1. createBackup ?faulty [''data'', ''backups''] ''2024-01-03T00:00:00.000Z''
      [''wow''] retail ''ACC'' exampleFs = (Some e, fs1)"
    unfolding v .
  note t3 = t[of "\<lambda>q. False" ?bare, THEN conjunct2, THEN conjunct2, THEN mp, OF ne,
      THEN conjunct2]
  from t3 have 3: "loadProfile (\<lambda>q. False) [''data'', ''backups''] ''2024-01-03T00:00:00.000Z''
        exampleSettings [''wow''] ?bare = writeProfile exampleSettings [''wow''] ?bare"
    by (rule conjunct1)
  have run: "loadProfile (\<lambda>q. False) [''data'', ''backups''] ''2024-01-03T00:00:00.000Z''
        exampleSettings [''wow''] ?bare = (None, ?out)"
    by code_simp
  have pw: "profileWrites exampleSettings [''wow'']
      = [([''wow'', ''_retail_'', ''WTF'', ''Account'', ''ACC'', ''SavedVariables'', ''ElvUI.lua''],
          ''new-elvui''),
         ([''wow'', ''_retail_'', ''WTF'', ''Account'', ''ACC'', ''config-cache.wtf''], ''new-cfg'')]"
    by code_simp
  from t3[THEN conjunct2, THEN spec, THEN mp, OF run]
  have 5: "fileContent ?out
      = fileContent ?bare ++ map_of (rev (profileWrites exampleSettings [''wow'']))" .
  from 1 2 rd 4 3 run pw 5 show ?thesis
    by (intro conjI) assumption+
qed

text \<open>
  C4 describes what the backup should cover; the code covers less. Applying a
  profile with game settings onto an account that has \<^verbatim>\<open>ElvUI.lua\<close> and
  \<^verbatim>\<open>config-cache.wtf\<close>: the old \<^verbatim>\<open>ElvUI.lua\<close> is in the backup directory, while
  \<^verbatim>\<open>config-cache.wtf\<close> is replaced and its old content is in no file afterwards.
\<close>

theorem game_settings_overwritten_without_backup:
  "loadProfile (\<lambda>q. False) [''data'', ''backups''] ''2024-01-03T00:00:00.000Z''
       exampleSettings [''wow''] exampleFs
     = (None,
        [([''wow''], Dir), ([''wow'', ''_retail_''], Dir), ([''wow'', ''_retail_'', ''WTF''], Dir),
         ([''wow'', ''_retail_'', ''WTF'', ''Account''], Dir),
         (exampleAccountPath, Dir),
         (exampleAccountPath @ [''SavedVariables''], Dir),
         (exampleAccountPath @ [''SavedVariables'', ''ElvUI.lua''], File ''new-elvui''),
         (exampleAccountPath @ [''config-cache.wtf''], File ''new-cfg''),
         ([''data''], Dir), ([''data'', ''backups''], Dir),
         ([''data'', ''backups'', ''ACC-2024-01-03T00-00-00-000Z''], Dir),
         ([''data'', ''backups'', ''ACC-2024-01-03T00-00-00-000Z'', ''ElvUI.lua''],
          File ''old-elvui'')])
   \<and> fileContent exampleFs (exampleAccountPath @ [''config-cache.wtf'']) = Some ''old-cfg''"
  by code_simp

section \<open>Capture\<close>

lemma captureFiles_distinct:
  "distinct (map fst acc) \<Longrightarrow> distinct (map fst (captureFiles faulty sv names fs acc))"
  by (induction names arbitrary: acc) (auto simp: Let_def distinct_update split: sum.splits)

lemma captureFiles_lookup:
  "map_of (captureFiles faulty sv names fs acc) key = Some content \<Longrightarrow>
     map_of acc key = Some content \<or>
     (\<exists>fileName\<in>set names. key = ''account/'' @ fileName \<and>
        existsSync (pathJoin sv [fileName]) fs \<and>
        readFileSync faulty (pathJoin sv [fileName]) fs = Inr content)"
proof (induction names arbitrary: acc)
  case Nil
  then show ?case by simp
next
  case (Cons n names)
  show ?case
  proof (cases "existsSync (pathJoin sv [n]) fs")
    case False
    with Cons.prems have "map_of (captureFiles faulty sv names fs acc) key = Some content"
      by (simp add: Let_def)
    from Cons.IH[OF this] show ?thesis by auto
  next
    case True
    show ?thesis
    proof (cases "readFileSync faulty (pathJoin sv [n]) fs")
      case (Inl e)
      with Cons.prems True have "map_of (captureFiles faulty sv names fs acc) key = Some content"
        by (simp add: Let_def)
      from Cons.IH[OF this] show ?thesis by auto
    next
      case (Inr c)
      with Cons.prems True
      have "map_of (captureFiles faulty sv names fs (AList.update (''account/'' @ n) c acc)) key
              = Some content"
        by (simp add: Let_def)
      from Cons.IH[OF this] show ?thesis
      proof
        assume "map_of (AList.update (''account/'' @ n) c acc) key = Some content"
        then have "(key = ''account/'' @ n \<and> content = c) \<or> map_of acc key = Some content"
          by (auto simp: update_conv' split: if_splits)
        with True Inr show ?thesis by auto
      next
        assume "\<exists>fileName\<in>set names. key = ''account/'' @ fileName \<and>
          existsSync (pathJoin sv [fileName]) fs \<and>
          readFileSync faulty (pathJoin sv [fileName]) fs = Inr content"
        then show ?thesis by auto
      qed
    qed
  qed
qed

lemma captureFiles_none:
  "\<forall>fileName\<in>set names. \<not> existsSync (pathJoin sv [fileName]) fs \<Longrightarrow>
     captureFiles faulty sv names fs acc = acc"
  by (induction names arbitrary: acc) (auto simp: Let_def)

lemma captureAddons_distinct:
  "distinct (map fst acc) \<Longrightarrow> distinct (map fst (captureAddons faulty sv names fs acc))"
  by (induction names arbitrary: acc) (auto simp: Let_def distinct_update)

lemma captureAddons_lookup:
  "map_of (captureAddons faulty sv names fs acc) a =
     (if a \<in> set names \<and> captureFiles faulty sv (accountLevel (ADDON_FILES a)) fs [] \<noteq> []
      then Some \<lparr>enabled = True,
                 files = captureFiles faulty sv (accountLevel (ADDON_FILES a)) fs []\<rparr>
      else map_of acc a)"
  by (induction names arbitrary: acc) (auto simp: Let_def update_conv')

lemma createFromCurrentSettings_result:
  assumes "createFromCurrentSettings faulty uuid clk nm wowPath version account addonNames fs dir
             = Inr (p, dir')"
    and "savedVarsPath = pathJoin (pathJoin wowPath
           [getVersionFolder version, ''WTF'', ''Account'', account]) [''SavedVariables'']"
  shows "(addons p = [] \<or> addons p = captureAddons faulty savedVarsPath addonNames fs [])
       \<and> map_of dir' (id' p @ ''.json'') = Some (Some p)"
  using assms(1) unfolding assms(2)
  by (auto simp: createFromCurrentSettings_def Let_def saveProfile_def update_conv'
           split: if_splits sum.splits)

text \<open>
  C9. Every add-on stored in a captured profile is enabled, was requested, and
  holds at least one file, each of them an existing settings file of that add-on
  with the content read from it; an add-on none of whose settings files exists is
  not in the \<^verbatim>\<open>addons\<close> map at all. The profile is persisted as returned.
\<close>

theorem capture_omits_addons_without_files:
  assumes "createFromCurrentSettings faulty uuid clk nm wowPath version account addonNames fs dir
             = Inr (p, dir')"
    and "savedVarsPath = pathJoin (pathJoin wowPath
           [getVersionFolder version, ''WTF'', ''Account'', account]) [''SavedVariables'']"
  shows "(\<forall>a cfg. (a, cfg) \<in> set (addons p) \<longrightarrow>
            enabled cfg \<and> files cfg \<noteq> [] \<and> a \<in> set addonNames \<and>
            (\<forall>key content. (key, content) \<in> set (files cfg) \<longrightarrow>
               (\<exists>fileName\<in>set (accountLevel (ADDON_FILES a)).
                  key = ''account/'' @ fileName \<and>
                  existsSync (pathJoin savedVarsPath [fileName]) fs \<and>
                  readFileSync faulty (pathJoin savedVarsPath [fileName]) fs = Inr content)))
       \<and> (\<forall>a. (\<forall>fileName\<in>set (accountLevel (ADDON_FILES a)).
                  \<not> existsSync (pathJoin savedVarsPath [fileName]) fs) \<longrightarrow>
               a \<notin> fst ` set (addons p))
       \<and> distinct (map fst (addons p))
       \<and> map_of dir' (id' p @ ''.json'') = Some (Some p)"
proof -
  note res = createFromCurrentSettings_result[OF assms]
  let ?found = "\<lambda>a. captureFiles faulty savedVarsPath (accountLevel (ADDON_FILES a)) fs []"
  let ?cap = "captureAddons faulty savedVarsPath addonNames fs []"
  have d: "distinct (map fst (addons p))"
    using res captureAddons_distinct[of "[]" faulty savedVarsPath addonNames fs] by auto
  have look: "map_of (addons p) a = Some cfg \<Longrightarrow>
      a \<in> set addonNames \<and> ?found a \<noteq> [] \<and> cfg = \<lparr>enabled = True, files = ?found a\<rparr>" for a cfg
    using res captureAddons_lookup[of faulty savedVarsPath addonNames fs "[]" a]
    by (auto split: if_splits)
  have 1: "\<forall>a cfg. (a, cfg) \<in> set (addons p) \<longrightarrow>
            enabled cfg \<and> files cfg \<noteq> [] \<and> a \<in> set addonNames \<and>
            (\<forall>key content. (key, content) \<in> set (files cfg) \<longrightarrow>
               (\<exists>fileName\<in>set (accountLevel (ADDON_FILES a)).
                  key = ''account/'' @ fileName \<and>
                  existsSync (pathJoin savedVarsPath [fileName]) fs \<and>
                  readFileSync faulty (pathJoin savedVarsPath [fileName]) fs = Inr content))"
  proof (intro allI impI)
    fix a cfg
    assume "(a, cfg) \<in> set (addons p)"
    with d have "map_of (addons p) a = Some cfg" by simp
    from look[OF this] have a: "a \<in> set addonNames" and ne: "?found a \<noteq> []"
      and cfg: "cfg = \<lparr>enabled = True, files = ?found a\<rparr>" by simp_all
    have fd: "distinct (map fst (?found a))"
      by (rule captureFiles_distinct) simp
    have "\<exists>fileName\<in>set (accountLevel (ADDON_FILES a)).
                  key = ''account/'' @ fileName \<and>
                  existsSync (pathJoin savedVarsPath [fileName]) fs \<and>
                  readFileSync faulty (pathJoin savedVarsPath [fileName]) fs = Inr content"
      if "(key, content) \<in> set (files cfg)" for key content
    proof -
      from that cfg fd have "map_of (?found a) key = Some content" by simp
      from captureFiles_lookup[OF this] show ?thesis by simp
    qed
    with a ne cfg show "enabled cfg \<and> files cfg \<noteq> [] \<and> a \<in> set addonNames \<and>
            (\<forall>key content. (key, content) \<in> set (files cfg) \<longrightarrow>
               (\<exists>fileName\<in>set (accountLevel (ADDON_FILES a)).
                  key = ''account/'' @ fileName \<and>
                  existsSync (pathJoin savedVarsPath [fileName]) fs \<and>
                  readFileSync faulty (pathJoin savedVarsPath [fileName]) fs = Inr content))"
      by simp
  qed
  have 2: "\<forall>a. (\<forall>fileName\<in>set (accountLevel (ADDON_FILES a)).
                  \<not> existsSync (pathJoin savedVarsPath [fileName]) fs) \<longrightarrow>
               a \<notin> fst ` set (addons p)"
  proof (intro allI impI)
    fix a
    assume "\<forall>fileName\<in>set (accountLevel (ADDON_FILES a)).
                  \<not> existsSync (pathJoin savedVarsPath [fileName]) fs"
    then have "?found a = []" by (rule captureFiles_none)
    with look[of a] have "map_of (addons p) a = None"
      by (cases "map_of (addons p) a") auto
    then show "a \<notin> fst ` set (addons p)"
      by (simp add: map_of_eq_None_iff)
  qed
  from 1 2 d res show ?thesis by blast
qed

theorem capture_omits_addons_without_files_witness:
  "createFromCurrentSettings (\<lambda>q. False) ''uuid'' exampleClock ''N'' [''wow''] retail ''ACC''
       [ElvUI, DBM] exampleFs []
     = Inr ((exampleProfile ''uuid'' ''N'' ''2024-01-03T00:00:00.000Z'')
              \<lparr>createdAt := ''2024-01-03T00:00:00.000Z'',
               addons := [(ElvUI, \<lparr>enabled = True,
                                   files = [(''account/ElvUI.lua'', ''old-elvui'')]\<rparr>)],
               gameSettings := Some ''old-cfg''\<rparr>,
            [(''uuid.json'',
              Some ((exampleProfile ''uuid'' ''N'' ''2024-01-03T00:00:00.000Z'')
                      \<lparr>createdAt := ''2024-01-03T00:00:00.000Z'',
                       addons := [(ElvUI, \<lparr>enabled = True,
                                           files = [(''account/ElvUI.lua'', ''old-elvui'')]\<rparr>)],
                       gameSettings := Some ''old-cfg''\<rparr>))])
   \<and> DBM \<notin> fst ` set [(ElvUI, \<lparr>enabled = True,
                                   files = [(''account/ElvUI.lua'', ''old-elvui'')]\<rparr>)]
   \<and> \<not> existsSync (exampleAccountPath @ [''SavedVariables'', ''DBM-Core.lua'']) exampleFs
   \<and> \<not> existsSync (exampleAccountPath @ [''SavedVariables'', ''DBM-StatusBarTimers.lua'']) exampleFs
   \<and> ElvUI \<in> set [ElvUI, DBM]
   \<and> readFileSync (\<lambda>q. False) (exampleAccountPath @ [''SavedVariables'', ''ElvUI.lua'']) exampleFs
       = Inr ''old-elvui''"
proof -
  let ?cfg = "\<lparr>enabled = True, files = [(''account/ElvUI.lua'', ''old-elvui'')]\<rparr>"
  let ?cfgs = "[(ElvUI, ?cfg)]"
  let ?p = "(exampleProfile ''uuid'' ''N'' ''2024-01-03T00:00:00.000Z'')
              \<lparr>createdAt := ''2024-01-03T00:00:00.000Z'', addons := ?cfgs,
               gameSettings := Some ''old-cfg''\<rparr>"
  let ?sv = "exampleAccountPath @ [''SavedVariables'']"
  have run: "createFromCurrentSettings (\<lambda>q. False) ''uuid'' exampleClock ''N'' [''wow''] retail
      ''ACC'' [ElvUI, DBM] exampleFs [] = Inr (?p, [(''uuid.json'', Some ?p)])"
    by code_simp
  have sv: "?sv = pathJoin (pathJoin [''wow'']
           [getVersionFolder retail, ''WTF'', ''Account'', ''ACC'']) [''SavedVariables'']"
    by code_simp
  have n1: "\<not> existsSync (exampleAccountPath @ [''SavedVariables'', ''DBM-Core.lua'']) exampleFs"
    by code_simp
  have n2: "\<not> existsSync (exampleAccountPath @ [''SavedVariables'', ''DBM-StatusBarTimers.lua'']) exampleFs"
    by code_simp
  have none: "\<forall>fileName\<in>set (accountLevel (ADDON_FILES DBM)).
      \<not> existsSync (pathJoin ?sv [fileName]) exampleFs"
    using n1 n2 by (simp add: pathJoin_def)
  note t = capture_omits_addons_without_files[OF run sv]
  from t[THEN conjunct2, THEN conjunct1, THEN spec, of DBM, THEN mp, OF none]
  have "DBM \<notin> fst ` set (addons ?p)" .
  then have omitted: "DBM \<notin> fst ` set ?cfgs" by simp
  have stored: "(ElvUI, ?cfg) \<in> set (addons ?p)" by simp
  note e = t[THEN conjunct1, THEN spec, THEN spec, THEN mp, OF stored]
  from e have req: "ElvUI \<in> set [ElvUI, DBM]" by blast
  have key: "(''account/ElvUI.lua'', ''old-elvui'') \<in> set (files ?cfg)" by simp
  from e[THEN conjunct2, THEN conjunct2, THEN conjunct2, THEN spec, THEN spec, THEN mp, OF key]
  have "\<exists>fileName\<in>set (accountLevel (ADDON_FILES ElvUI)).
      ''account/ElvUI.lua'' = ''account/'' @ fileName \<and>
      existsSync (pathJoin ?sv [fileName]) exampleFs \<and>
      readFileSync (\<lambda>q. False) (pathJoin ?sv [fileName]) exampleFs = Inr ''old-elvui''" .
  then have rdf: "readFileSync (\<lambda>q. False) (exampleAccountPath @ [''SavedVariables'', ''ElvUI.lua''])
      exampleFs = Inr ''old-elvui''"
    by (simp add: pathJoin_def)
  from run omitted n1 n2 req rdf show ?thesis
    by (intro conjI) assumption+
qed

end
